theory Spec2Isabelle
  imports Complex_Main "HOL-Library.Multiset"
begin

section \<open>Numbers, cells and Python values\<close>

text \<open>
  Python floats are idealised as reals. A DataFrame cell is either a finite number or
  the missing marker, for which \<^verbatim>\<open>pd.isna\<close> is true; every comparison with a
  missing cell is false, as it is for NaN. A float division whose divisor is zero does
  not raise on numpy scalars: it gives an infinity or NaN, which \<open>fl\<close> keeps apart.
\<close>

datatype cell = NaN | Num real

datatype fl = Fin real | PInf | NInf | Nan

datatype exn = KeyError string | TypeError string | Exception string

fun cell_lt :: "cell \<Rightarrow> cell \<Rightarrow> bool" where
  "cell_lt (Num a) (Num b) = (a < b)"
| "cell_lt _ _ = False"

fun cell_le :: "cell \<Rightarrow> cell \<Rightarrow> bool" where
  "cell_le (Num a) (Num b) = (a \<le> b)"
| "cell_le _ _ = False"

definition cell_gt :: "cell \<Rightarrow> cell \<Rightarrow> bool" where
  "cell_gt a b = cell_lt b a"

definition cell_ge :: "cell \<Rightarrow> cell \<Rightarrow> bool" where
  "cell_ge a b = cell_le b a"

fun cell_sub :: "cell \<Rightarrow> cell \<Rightarrow> cell" where
  "cell_sub (Num a) (Num b) = Num (a - b)"
| "cell_sub _ _ = NaN"

text \<open>\<^verbatim>\<open>a / b\<close> on numpy floats.\<close>

fun fdiv :: "cell \<Rightarrow> cell \<Rightarrow> fl" where
  "fdiv (Num a) (Num b) =
     (if b \<noteq> 0 then Fin (a / b)
      else if a > 0 then PInf else if a < 0 then NInf else Nan)"
| "fdiv _ _ = Nan"

fun fl_times :: "fl \<Rightarrow> real \<Rightarrow> fl" where
  "fl_times (Fin x) c = Fin (x * c)"
| "fl_times PInf c = (if c > 0 then PInf else if c < 0 then NInf else Nan)"
| "fl_times NInf c = (if c > 0 then NInf else if c < 0 then PInf else Nan)"
| "fl_times Nan c = Nan"

fun fl_gt :: "fl \<Rightarrow> real \<Rightarrow> bool" where
  "fl_gt (Fin x) c = (x > c)"
| "fl_gt PInf c = True"
| "fl_gt _ c = False"

fun fl_lt :: "fl \<Rightarrow> real \<Rightarrow> bool" where
  "fl_lt (Fin x) c = (x < c)"
| "fl_lt NInf c = True"
| "fl_lt _ c = False"

text \<open>
  \<^verbatim>\<open>round(score, 2)\<close>: Python rounds half to even. On reals the ties are the exact
  multiples of 0.005.
\<close>

definition round_half_even :: "real \<Rightarrow> int" where
  "round_half_even x =
     (let f = \<lfloor>x\<rfloor>; d = x - of_int f
      in if d < 1/2 then f else if d > 1/2 then f + 1 else if even f then f else f + 1)"

definition round2 :: "real \<Rightarrow> real" where
  "round2 x = of_int (round_half_even (x * 100)) / 100"

datatype pyval = PyNone | PyStr string | PyNum real | PyFl fl

fun pyval_of_cell :: "cell \<Rightarrow> pyval" where
  "pyval_of_cell NaN = PyFl Nan"
| "pyval_of_cell (Num x) = PyNum x"

text \<open>
  A signal dictionary. Every dictionary the analysers build has the keys
  \<^verbatim>\<open>'signal'\<close> and \<^verbatim>\<open>'strength'\<close>; the other keys are kept in \<open>extras\<close>.
  Such a dictionary is never empty, so it is truthy, and
  \<^verbatim>\<open>signal.get('strength', 0)\<close> always finds the key.
\<close>

record sig =
  signal :: string
  strength :: int
  extras :: "(string \<times> pyval) list"

definition sig_get :: "sig \<Rightarrow> string \<Rightarrow> pyval" where
  "sig_get s k = (case map_of (extras s) k of None \<Rightarrow> PyNone | Some v \<Rightarrow> v)"

text \<open>
  A row of a DataFrame (a pandas Series indexed by column name) and a DataFrame as the
  list of its rows, oldest first. \<^verbatim>\<open>row[k]\<close> raises KeyError on an absent
  column; \<^verbatim>\<open>row.get(k)\<close> gives Python's None there.
\<close>

type_synonym row = "string \<rightharpoonup> cell"
type_synonym df = "row list"

definition getitem :: "row \<Rightarrow> string \<Rightarrow> exn + cell" where
  "getitem r k = (case r k of None \<Rightarrow> Inl (KeyError k) | Some c \<Rightarrow> Inr c)"

text \<open>\<^verbatim>\<open>pd.isna(row.get(k))\<close>: true for None and for the missing marker.\<close>

fun isna :: "cell option \<Rightarrow> bool" where
  "isna None = True"
| "isna (Some NaN) = True"
| "isna (Some (Num x)) = False"

definition thenE :: "exn + 'a \<Rightarrow> ('a \<Rightarrow> exn + 'b) \<Rightarrow> exn + 'b" where
  "thenE m f = (case m of Inl e \<Rightarrow> Inl e | Inr a \<Rightarrow> f a)"

section \<open>config.py\<close>

definition RSI_PERIOD :: nat where "RSI_PERIOD = 14"
definition RSI_OVERSOLD :: real where "RSI_OVERSOLD = 30"
definition RSI_OVERBOUGHT :: real where "RSI_OVERBOUGHT = 70"
definition SMA_SHORT :: nat where "SMA_SHORT = 20"
definition SMA_MEDIUM :: nat where "SMA_MEDIUM = 50"
definition SMA_LONG :: nat where "SMA_LONG = 200"
definition VOLUME_SPIKE_THRESHOLD :: real where "VOLUME_SPIKE_THRESHOLD = 3/2"
definition TECHNICAL_WEIGHT :: real where "TECHNICAL_WEIGHT = 6/10"
definition FUNDAMENTAL_WEIGHT :: real where "FUNDAMENTAL_WEIGHT = 4/10"

section \<open>technical\_analysis.py: the signal classifiers\<close>

text \<open>
  The methods of \<^verbatim>\<open>TechnicalAnalyzer\<close>, named as in the source without the leading
  underscore.
\<close>

definition analyze_rsi :: "cell \<Rightarrow> sig" where
  "analyze_rsi rsi =
     (case rsi of
        NaN \<Rightarrow> \<lparr>signal = ''neutral'', strength = 0, extras = [(''value'', PyNone)]\<rparr>
      | Num x \<Rightarrow>
          if x < RSI_OVERSOLD then
            \<lparr>signal = ''bullish'', strength = 2, extras = [(''value'', PyNum x)]\<rparr>
          else if x > RSI_OVERBOUGHT then
            \<lparr>signal = ''bearish'', strength = -2, extras = [(''value'', PyNum x)]\<rparr>
          else if x < 40 then
            \<lparr>signal = ''bullish'', strength = 1, extras = [(''value'', PyNum x)]\<rparr>
          else if x > 60 then
            \<lparr>signal = ''bearish'', strength = -1, extras = [(''value'', PyNum x)]\<rparr>
          else
            \<lparr>signal = ''neutral'', strength = 0, extras = [(''value'', PyNum x)]\<rparr>)"

text \<open>
  \<^verbatim>\<open>previous.get('macd', macd)\<close> falls back to the latest value when the column
  is absent from the previous row. After the guard the latest two values are numbers.
\<close>

definition analyze_macd :: "row \<Rightarrow> row \<Rightarrow> sig" where
  "analyze_macd latest previous =
     (if isna (latest ''macd'') \<or> isna (latest ''macd_signal'') then
        \<lparr>signal = ''neutral'', strength = 0, extras = []\<rparr>
      else
        let macd = the (latest ''macd'');
            macd_signal = the (latest ''macd_signal'');
            prev_macd = (case previous ''macd'' of None \<Rightarrow> macd | Some c \<Rightarrow> c);
            prev_signal = (case previous ''macd_signal'' of None \<Rightarrow> macd_signal | Some c \<Rightarrow> c)
        in if cell_le prev_macd prev_signal \<and> cell_gt macd macd_signal then
             \<lparr>signal = ''bullish'', strength = 2, extras = [(''crossover'', PyStr ''bullish'')]\<rparr>
           else if cell_ge prev_macd prev_signal \<and> cell_lt macd macd_signal then
             \<lparr>signal = ''bearish'', strength = -2, extras = [(''crossover'', PyStr ''bearish'')]\<rparr>
           else if cell_gt macd macd_signal then
             \<lparr>signal = ''bullish'', strength = 1, extras = [(''crossover'', PyNone)]\<rparr>
           else
             \<lparr>signal = ''bearish'', strength = -1, extras = [(''crossover'', PyNone)]\<rparr>)"

definition analyze_moving_averages :: "row \<Rightarrow> exn + sig" where
  "analyze_moving_averages latest =
     thenE (getitem latest ''Close'') (\<lambda>price.
     thenE (getitem latest ''sma_20'') (\<lambda>sma_20.
     thenE (getitem latest ''sma_50'') (\<lambda>sma_50.
     thenE (getitem latest ''sma_200'') (\<lambda>sma_200.
       Inr (if sma_20 = NaN \<or> sma_50 = NaN \<or> sma_200 = NaN then
              \<lparr>signal = ''neutral'', strength = 0, extras = []\<rparr>
            else if cell_gt sma_20 sma_50 \<and> cell_gt sma_50 sma_200 \<and> cell_gt price sma_20 then
              \<lparr>signal = ''bullish'', strength = 2, extras = [(''pattern'', PyStr ''golden_cross'')]\<rparr>
            else if cell_lt sma_20 sma_50 \<and> cell_lt sma_50 sma_200 \<and> cell_lt price sma_20 then
              \<lparr>signal = ''bearish'', strength = -2, extras = [(''pattern'', PyStr ''death_cross'')]\<rparr>
            else if cell_gt price sma_20 \<and> cell_gt price sma_50 \<and> cell_gt price sma_200 then
              \<lparr>signal = ''bullish'', strength = 1, extras = [(''pattern'', PyStr ''above_all'')]\<rparr>
            else if cell_lt price sma_20 \<and> cell_lt price sma_50 \<and> cell_lt price sma_200 then
              \<lparr>signal = ''bearish'', strength = -1, extras = [(''pattern'', PyStr ''below_all'')]\<rparr>
            else
              \<lparr>signal = ''neutral'', strength = 0, extras = [(''pattern'', PyStr ''mixed'')]\<rparr>)))))"

text \<open>
  \<^verbatim>\<open>bb_middle\<close> is read with \<^verbatim>\<open>.get\<close> and is not guarded: when the column is
  absent it is None, and \<^verbatim>\<open>price < None\<close> raises TypeError once the first two
  comparisons have failed. The text of the error stands for Python's message.
\<close>

definition analyze_bollinger_bands :: "row \<Rightarrow> exn + sig" where
  "analyze_bollinger_bands latest =
     thenE (getitem latest ''Close'') (\<lambda>price.
       if isna (latest ''bb_upper'') \<or> isna (latest ''bb_lower'') then
         Inr \<lparr>signal = ''neutral'', strength = 0, extras = []\<rparr>
       else
         let bb_upper = the (latest ''bb_upper''); bb_lower = the (latest ''bb_lower'')
         in if cell_lt price bb_lower then
              Inr \<lparr>signal = ''bullish'', strength = 2, extras = [(''position'', PyStr ''below_lower'')]\<rparr>
            else if cell_gt price bb_upper then
              Inr \<lparr>signal = ''bearish'', strength = -2, extras = [(''position'', PyStr ''above_upper'')]\<rparr>
            else
              (case latest ''bb_middle'' of
                 None \<Rightarrow> Inl (TypeError ''< not supported with NoneType'')
               | Some bb_middle \<Rightarrow>
                   if cell_lt price bb_middle then
                     Inr \<lparr>signal = ''bullish'', strength = 1, extras = [(''position'', PyStr ''lower_half'')]\<rparr>
                   else
                     Inr \<lparr>signal = ''bearish'', strength = -1, extras = [(''position'', PyStr ''upper_half'')]\<rparr>))"

definition analyze_volume :: "row \<Rightarrow> exn + sig" where
  "analyze_volume latest =
     thenE (getitem latest ''Volume'') (\<lambda>volume.
       if isna (latest ''volume_sma_20'') then
         Inr \<lparr>signal = ''neutral'', strength = 0, extras = []\<rparr>
       else
         let volume_ratio = fdiv volume (the (latest ''volume_sma_20''))
         in if fl_gt volume_ratio VOLUME_SPIKE_THRESHOLD then
              Inr \<lparr>signal = ''bullish'', strength = 1, extras = [(''volume_ratio'', PyFl volume_ratio)]\<rparr>
            else if fl_lt volume_ratio (7/10) then
              Inr \<lparr>signal = ''bearish'', strength = -1, extras = [(''volume_ratio'', PyFl volume_ratio)]\<rparr>
            else
              Inr \<lparr>signal = ''neutral'', strength = 0, extras = [(''volume_ratio'', PyFl volume_ratio)]\<rparr>)"

text \<open>
  \<^verbatim>\<open>df[name]\<close>: the column, or KeyError. All rows of a DataFrame have the same
  columns; the model asks every row for the column.
\<close>

definition getcol :: "df \<Rightarrow> string \<Rightarrow> exn + cell list" where
  "getcol d k =
     (if list_all (\<lambda>r. r k \<noteq> None) d then Inr (map (\<lambda>r. the (r k)) d)
      else Inl (KeyError k))"

text \<open>\<^verbatim>\<open>Series.mean()\<close> skips missing values; with none left it is NaN.\<close>

definition numbers_of :: "cell list \<Rightarrow> real list" where
  "numbers_of cs = concat (map (\<lambda>c. case c of NaN \<Rightarrow> [] | Num x \<Rightarrow> [x]) cs)"

definition mean_skipna :: "cell list \<Rightarrow> cell" where
  "mean_skipna cs =
     (let xs = numbers_of cs
      in if xs = [] then NaN else Num (sum_list xs / real (length xs)))"

definition tail_rows :: "nat \<Rightarrow> 'a list \<Rightarrow> 'a list" where
  "tail_rows n xs = drop (length xs - n) xs"

text \<open>
  With no row in the window \<^verbatim>\<open>iloc[-1]\<close> raises; otherwise \<open>periods\<close> is
  positive and the slope is an ordinary quotient.
\<close>

definition analyze_trend :: "df \<Rightarrow> nat \<Rightarrow> exn + sig" where
  "analyze_trend d periods =
     (if length d < periods then Inr \<lparr>signal = ''neutral'', strength = 0, extras = []\<rparr>
      else
        thenE (getcol (tail_rows periods d) ''Close'') (\<lambda>close_prices.
          if close_prices = [] then Inl (Exception ''IndexError: single positional indexer is out-of-bounds'')
          else
            let slope = (case cell_sub (last close_prices) (hd close_prices) of
                           NaN \<Rightarrow> NaN | Num x \<Rightarrow> Num (x / real periods));
                avg_price = mean_skipna close_prices;
                trend_strength = fl_times (fdiv slope avg_price) 100
            in if fl_gt trend_strength 1 then
                 Inr \<lparr>signal = ''bullish'', strength = 2, extras = [(''trend_strength'', PyFl trend_strength)]\<rparr>
               else if fl_gt trend_strength (2/10) then
                 Inr \<lparr>signal = ''bullish'', strength = 1, extras = [(''trend_strength'', PyFl trend_strength)]\<rparr>
               else if fl_lt trend_strength (-1) then
                 Inr \<lparr>signal = ''bearish'', strength = -2, extras = [(''trend_strength'', PyFl trend_strength)]\<rparr>
               else if fl_lt trend_strength (-(2/10)) then
                 Inr \<lparr>signal = ''bearish'', strength = -1, extras = [(''trend_strength'', PyFl trend_strength)]\<rparr>
               else
                 Inr \<lparr>signal = ''neutral'', strength = 0, extras = [(''trend_strength'', PyFl trend_strength)]\<rparr>))"

definition analyze_stochastic :: "row \<Rightarrow> sig" where
  "analyze_stochastic latest =
     (if isna (latest ''stoch_k'') \<or> isna (latest ''stoch_d'') then
        \<lparr>signal = ''neutral'', strength = 0, extras = []\<rparr>
      else
        let stoch_k = the (latest ''stoch_k''); stoch_d = the (latest ''stoch_d'')
        in if cell_lt stoch_k (Num 20) then
             \<lparr>signal = ''bullish'', strength = 1,
              extras = [(''k'', pyval_of_cell stoch_k), (''d'', pyval_of_cell stoch_d)]\<rparr>
           else if cell_gt stoch_k (Num 80) then
             \<lparr>signal = ''bearish'', strength = -1,
              extras = [(''k'', pyval_of_cell stoch_k), (''d'', pyval_of_cell stoch_d)]\<rparr>
           else
             \<lparr>signal = ''neutral'', strength = 0,
              extras = [(''k'', pyval_of_cell stoch_k), (''d'', pyval_of_cell stoch_d)]\<rparr>)"

section \<open>technical\_analysis.py: the technical score\<close>

text \<open>
  The dictionary of sub-signals, in insertion order; a value may be None (the
  stochastic entry). \<^verbatim>\<open>signals.get(name)\<close> is None for an absent key and for a None
  value alike.
\<close>

type_synonym signals = "(string \<times> sig option) list"

definition signals_get :: "signals \<Rightarrow> string \<Rightarrow> sig option" where
  "signals_get sg k = (case map_of sg k of None \<Rightarrow> None | Some v \<Rightarrow> v)"

definition weights :: "(string \<times> real) list" where
  "weights =
     [(''rsi_signal'', 2), (''macd_signal'', 5/2), (''ma_signal'', 2), (''bb_signal'', 3/2),
      (''volume_signal'', 1), (''trend_signal'', 2), (''stoch_signal'', 1)]"

text \<open>
  The loop over \<^verbatim>\<open>weights.items()\<close>, carrying
  \<^verbatim>\<open>(total_strength, max_possible)\<close>.
\<close>

fun score_loop :: "(string \<times> real) list \<Rightarrow> signals \<Rightarrow> real \<times> real \<Rightarrow> real \<times> real" where
  "score_loop [] sg acc = acc"
| "score_loop ((signal_name, weight) # ws) sg (total_strength, max_possible) =
     (case signals_get sg signal_name of
        None \<Rightarrow> score_loop ws sg (total_strength, max_possible)
      | Some s \<Rightarrow>
          score_loop ws sg
            (total_strength + real_of_int (strength s) * weight, max_possible + 2 * weight))"

definition calculate_technical_score :: "signals \<Rightarrow> real" where
  "calculate_technical_score sg =
     (case score_loop weights sg (0, 0) of
        (total_strength, max_possible) \<Rightarrow>
          round2 (if max_possible > 0
                  then ((total_strength + max_possible) / (2 * max_possible)) * 100
                  else 50))"

section \<open>technical\_analysis.py: generate\_technical\_signals\<close>

text \<open>
  The result dictionary: either \<^verbatim>\<open>{'error': ...}\<close> for an empty frame, or the
  score with its signals. The reasoning text only formats the signals and cannot raise
  on the signals built here; it is not modelled.
\<close>

record tech_result =
  tscore :: real
  tsignals :: signals
  tcurrent_price :: cell
  tlatest_indicators :: "(string \<times> cell option) list"

datatype tech_out = TechError string | TechResult tech_result

definition generate_technical_signals :: "df \<Rightarrow> exn + tech_out" where
  "generate_technical_signals d =
     (if d = [] then Inr (TechError ''No data available'')
      else
        let latest = last d;
            previous = (if length d > 1 then d ! (length d - 2) else latest)
        in thenE (getitem latest ''rsi'') (\<lambda>rsi.
           let rsi_signal = analyze_rsi rsi;
               macd_signal = analyze_macd latest previous
           in thenE (analyze_moving_averages latest) (\<lambda>ma_signal.
              thenE (analyze_bollinger_bands latest) (\<lambda>bb_signal.
              thenE (analyze_volume latest) (\<lambda>volume_signal.
              thenE (analyze_trend d 20) (\<lambda>trend_signal.
              let stoch_signal =
                    (if latest ''stoch_k'' \<noteq> None then Some (analyze_stochastic latest) else None);
                  sg = [(''rsi_signal'', Some rsi_signal), (''macd_signal'', Some macd_signal),
                        (''ma_signal'', Some ma_signal), (''bb_signal'', Some bb_signal),
                        (''volume_signal'', Some volume_signal),
                        (''trend_signal'', Some trend_signal), (''stoch_signal'', stoch_signal)]
              in thenE (getitem latest ''Close'') (\<lambda>price.
                 thenE (getitem latest ''sma_20'') (\<lambda>sma_20.
                 thenE (getitem latest ''sma_50'') (\<lambda>sma_50.
                 thenE (getitem latest ''sma_200'') (\<lambda>sma_200.
                   Inr (TechResult
                     \<lparr>tscore = calculate_technical_score sg, tsignals = sg,
                      tcurrent_price = price,
                      tlatest_indicators =
                        [(''rsi'', Some rsi), (''macd'', latest ''macd''),
                         (''sma_20'', Some sma_20), (''sma_50'', Some sma_50),
                         (''sma_200'', Some sma_200)]\<rparr>)))))))))))"

section \<open>fundamental\_analysis.py\<close>

record benchmark =
  bm_good :: real
  bm_acceptable :: real
  bm_weight :: real

definition pe_ratio_bm :: benchmark where
  "pe_ratio_bm = \<lparr>bm_good = 15, bm_acceptable = 25, bm_weight = 2\<rparr>"
definition profit_margin_bm :: benchmark where
  "profit_margin_bm = \<lparr>bm_good = 15/100, bm_acceptable = 8/100, bm_weight = 2\<rparr>"
definition debt_to_equity_bm :: benchmark where
  "debt_to_equity_bm = \<lparr>bm_good = 1/2, bm_acceptable = 3/2, bm_weight = 3/2\<rparr>"
definition revenue_growth_bm :: benchmark where
  "revenue_growth_bm = \<lparr>bm_good = 15/100, bm_acceptable = 5/100, bm_weight = 2\<rparr>"
definition return_on_equity_bm :: benchmark where
  "return_on_equity_bm = \<lparr>bm_good = 15/100, bm_acceptable = 8/100, bm_weight = 2\<rparr>"
definition return_on_assets_bm :: benchmark where
  "return_on_assets_bm = \<lparr>bm_good = 8/100, bm_acceptable = 4/100, bm_weight = 3/2\<rparr>"
definition current_ratio_bm :: benchmark where
  "current_ratio_bm = \<lparr>bm_good = 2, bm_acceptable = 1, bm_weight = 1\<rparr>"
definition earnings_growth_bm :: benchmark where
  "earnings_growth_bm = \<lparr>bm_good = 15/100, bm_acceptable = 5/100, bm_weight = 2\<rparr>"
definition operating_margin_bm :: benchmark where
  "operating_margin_bm = \<lparr>bm_good = 15/100, bm_acceptable = 8/100, bm_weight = 3/2\<rparr>"

definition benchmarks :: "(string \<times> benchmark) list" where
  "benchmarks =
     [(''pe_ratio'', pe_ratio_bm), (''profit_margin'', profit_margin_bm),
      (''debt_to_equity'', debt_to_equity_bm), (''revenue_growth'', revenue_growth_bm),
      (''return_on_equity'', return_on_equity_bm), (''return_on_assets'', return_on_assets_bm),
      (''current_ratio'', current_ratio_bm), (''earnings_growth'', earnings_growth_bm),
      (''operating_margin'', operating_margin_bm)]"

text \<open>A metric value: a number, or Python's None.\<close>

fun pyval_of_metric :: "real option \<Rightarrow> pyval" where
  "pyval_of_metric None = PyNone"
| "pyval_of_metric (Some x) = PyNum x"

definition fsig :: "string \<Rightarrow> int \<Rightarrow> real option \<Rightarrow> string \<Rightarrow> sig" where
  "fsig dir st v interp =
     \<lparr>signal = dir, strength = st,
      extras = [(''value'', pyval_of_metric v), (''interpretation'', PyStr interp)]\<rparr>"

definition fsig_neutral :: "real option \<Rightarrow> sig" where
  "fsig_neutral v = \<lparr>signal = ''neutral'', strength = 0, extras = [(''value'', pyval_of_metric v)]\<rparr>"

definition analyze_pe_ratio :: "real option \<Rightarrow> sig" where
  "analyze_pe_ratio pe_ratio =
     (case pe_ratio of
        None \<Rightarrow> fsig_neutral pe_ratio
      | Some x \<Rightarrow>
          if x \<le> 0 then fsig_neutral pe_ratio
          else if x < bm_good pe_ratio_bm then fsig ''bullish'' 2 pe_ratio ''undervalued''
          else if x < bm_acceptable pe_ratio_bm then fsig ''bullish'' 1 pe_ratio ''fairly valued''
          else if x < 35 then fsig ''neutral'' 0 pe_ratio ''slightly expensive''
          else fsig ''bearish'' (-1) pe_ratio ''overvalued'')"

definition analyze_profit_margin :: "real option \<Rightarrow> sig" where
  "analyze_profit_margin margin =
     (case margin of
        None \<Rightarrow> fsig_neutral margin
      | Some x \<Rightarrow>
          if x \<ge> bm_good profit_margin_bm then fsig ''bullish'' 2 margin ''excellent profitability''
          else if x \<ge> bm_acceptable profit_margin_bm then fsig ''bullish'' 1 margin ''good profitability''
          else if x \<ge> 3/100 then fsig ''neutral'' 0 margin ''moderate profitability''
          else fsig ''bearish'' (-1) margin ''low profitability'')"

definition analyze_debt_to_equity :: "real option \<Rightarrow> sig" where
  "analyze_debt_to_equity debt_to_equity =
     (case debt_to_equity of
        None \<Rightarrow> fsig_neutral debt_to_equity
      | Some x \<Rightarrow>
          if x \<le> bm_good debt_to_equity_bm then fsig ''bullish'' 2 debt_to_equity ''low debt''
          else if x \<le> bm_acceptable debt_to_equity_bm then fsig ''bullish'' 1 debt_to_equity ''manageable debt''
          else if x \<le> 5/2 then fsig ''neutral'' 0 debt_to_equity ''moderate debt''
          else fsig ''bearish'' (-1) debt_to_equity ''high debt'')"

text \<open>
  \<^verbatim>\<open>self.benchmarks.get(metric_name, default)\<close>; the default dictionaries have no
  weight, which these two methods do not read.
\<close>

definition analyze_growth_metric :: "real option \<Rightarrow> string \<Rightarrow> sig" where
  "analyze_growth_metric growth metric_name =
     (case growth of
        None \<Rightarrow> fsig_neutral growth
      | Some x \<Rightarrow>
          let bm = (case map_of benchmarks metric_name of
                      None \<Rightarrow> \<lparr>bm_good = 15/100, bm_acceptable = 5/100, bm_weight = 1\<rparr>
                    | Some b \<Rightarrow> b)
          in if x \<ge> bm_good bm then fsig ''bullish'' 2 growth ''strong growth''
             else if x \<ge> bm_acceptable bm then fsig ''bullish'' 1 growth ''moderate growth''
             else if x \<ge> 0 then fsig ''neutral'' 0 growth ''slow growth''
             else if x \<ge> - (5/100) then fsig ''bearish'' (-1) growth ''slight decline''
             else fsig ''bearish'' (-2) growth ''significant decline'')"

definition analyze_profitability_metric :: "real option \<Rightarrow> string \<Rightarrow> sig" where
  "analyze_profitability_metric v metric_name =
     (case v of
        None \<Rightarrow> fsig_neutral v
      | Some x \<Rightarrow>
          let bm = (case map_of benchmarks metric_name of
                      None \<Rightarrow> \<lparr>bm_good = 15/100, bm_acceptable = 8/100, bm_weight = 1\<rparr>
                    | Some b \<Rightarrow> b)
          in if x \<ge> bm_good bm then fsig ''bullish'' 2 v ''excellent''
             else if x \<ge> bm_acceptable bm then fsig ''bullish'' 1 v ''good''
             else if x \<ge> 0 then fsig ''neutral'' 0 v ''below average''
             else fsig ''bearish'' (-1) v ''poor'')"

definition analyze_current_ratio :: "real option \<Rightarrow> sig" where
  "analyze_current_ratio ratio =
     (case ratio of
        None \<Rightarrow> fsig_neutral ratio
      | Some x \<Rightarrow>
          if x \<ge> bm_good current_ratio_bm then fsig ''bullish'' 2 ratio ''strong liquidity''
          else if x \<ge> bm_acceptable current_ratio_bm then fsig ''bullish'' 1 ratio ''adequate liquidity''
          else if x \<ge> 8/10 then fsig ''neutral'' 0 ratio ''tight liquidity''
          else fsig ''bearish'' (-1) ratio ''liquidity concerns'')"

text \<open>
  The loop of \<^verbatim>\<open>_calculate_fundamental_score\<close> over \<^verbatim>\<open>signals.items()\<close>,
  carrying \<^verbatim>\<open>(total_weighted_strength, total_weight)\<close>.
\<close>

type_synonym fsignals = "(string \<times> sig) list"

fun fscore_loop :: "fsignals \<Rightarrow> real \<times> real \<Rightarrow> real \<times> real" where
  "fscore_loop [] acc = acc"
| "fscore_loop ((metric_name, s) # rest) (total_weighted_strength, total_weight) =
     (let weight = (case map_of benchmarks metric_name of None \<Rightarrow> 1 | Some b \<Rightarrow> bm_weight b)
      in fscore_loop rest
           (total_weighted_strength + real_of_int (strength s) * weight, total_weight + 2 * weight))"

definition calculate_fundamental_score :: "fsignals \<Rightarrow> real" where
  "calculate_fundamental_score sg =
     (if sg = [] then 50
      else case fscore_loop sg (0, 0) of
        (total_weighted_strength, total_weight) \<Rightarrow>
          round2 (if total_weight > 0
                  then ((total_weighted_strength + total_weight) / (2 * total_weight)) * 100
                  else 50))"

text \<open>
  The metrics dictionary, with its keys in order and values that may be None. The
  reasoning text is not modelled.
\<close>

type_synonym fdata = "(string \<times> real option) list"

record fund_result =
  fscore :: real
  fsignals :: fsignals
  fmetrics :: fdata

definition add_signal :: "fdata \<Rightarrow> string \<Rightarrow> (real option \<Rightarrow> sig) \<Rightarrow> fsignals \<Rightarrow> fsignals" where
  "add_signal fd k f sg =
     (case map_of fd k of None \<Rightarrow> sg | Some v \<Rightarrow> sg @ [(k, f v)])"

definition analyze_fundamentals :: "fdata \<Rightarrow> fund_result" where
  "analyze_fundamentals fundamental_data =
     (if fundamental_data = [] then \<lparr>fscore = 50, fsignals = [], fmetrics = []\<rparr>
      else
        let sg0 = add_signal fundamental_data ''pe_ratio'' analyze_pe_ratio [];
            sg1 = add_signal fundamental_data ''profit_margin'' analyze_profit_margin sg0;
            sg2 = add_signal fundamental_data ''debt_to_equity'' analyze_debt_to_equity sg1;
            sg3 = add_signal fundamental_data ''revenue_growth''
                    (\<lambda>v. analyze_growth_metric v ''revenue_growth'') sg2;
            sg4 = add_signal fundamental_data ''return_on_equity''
                    (\<lambda>v. analyze_profitability_metric v ''return_on_equity'') sg3;
            sg5 = add_signal fundamental_data ''return_on_assets''
                    (\<lambda>v. analyze_profitability_metric v ''return_on_assets'') sg4;
            sg6 = add_signal fundamental_data ''earnings_growth''
                    (\<lambda>v. analyze_growth_metric v ''earnings_growth'') sg5;
            sg7 = add_signal fundamental_data ''current_ratio'' analyze_current_ratio sg6;
            sg8 = add_signal fundamental_data ''operating_margin''
                    (\<lambda>v. analyze_profitability_metric v ''operating_margin'') sg7
        in \<lparr>fscore = calculate_fundamental_score sg8, fsignals = sg8,
            fmetrics = fundamental_data\<rparr>)"

section \<open>technical\_analysis.py: calculate\_all\_indicators\<close>

text \<open>
  The indicator functions of the library \<^verbatim>\<open>pandas_ta\<close> are parameters: each may
  raise, return None, or return a column (a frame of named columns for MACD, Bollinger
  Bands and the stochastic oscillator).
\<close>

type_synonym frame = "(string \<times> cell list) list"

record ta_lib =
  ta_rsi :: "cell list \<Rightarrow> nat \<Rightarrow> exn + cell list option"
  ta_macd :: "cell list \<Rightarrow> exn + frame option"
  ta_sma :: "cell list \<Rightarrow> nat \<Rightarrow> exn + cell list option"
  ta_bbands :: "cell list \<Rightarrow> exn + frame option"
  ta_stoch :: "cell list \<Rightarrow> cell list \<Rightarrow> cell list \<Rightarrow> exn + frame option"
  ta_atr :: "cell list \<Rightarrow> cell list \<Rightarrow> cell list \<Rightarrow> exn + cell list option"
  ta_obv :: "cell list \<Rightarrow> cell list \<Rightarrow> exn + cell list option"

text \<open>
  \<^verbatim>\<open>df[name] = value\<close>: a column is aligned on the index, rows it does not
  reach get the missing marker; None fills the column with the missing marker.
\<close>

fun set_column :: "string \<Rightarrow> cell list option \<Rightarrow> df \<Rightarrow> df" where
  "set_column name None d = map (\<lambda>r. r(name \<mapsto> NaN)) d"
| "set_column name (Some col) d =
     map (\<lambda>(i, r). r(name \<mapsto> (if i < length col then col ! i else NaN))) (enumerate 0 d)"

definition frame_getitem :: "frame \<Rightarrow> string \<Rightarrow> exn + cell list" where
  "frame_getitem f k = (case map_of f k of None \<Rightarrow> Inl (KeyError k) | Some c \<Rightarrow> Inr c)"

definition frame_empty :: "frame \<Rightarrow> bool" where
  "frame_empty f = (f = [] \<or> snd (hd f) = [])"

text \<open>
  The body of the \<^verbatim>\<open>try\<close> block is a program on the frame being filled: a
  statement either completes or raises, and the frame keeps every assignment made
  before the raise.
\<close>

type_synonym 'a prog = "df \<Rightarrow> (exn + 'a) \<times> df"

definition bindP :: "'a prog \<Rightarrow> ('a \<Rightarrow> 'b prog) \<Rightarrow> 'b prog" where
  "bindP m f = (\<lambda>s. case m s of (Inl e, s') \<Rightarrow> (Inl e, s') | (Inr a, s') \<Rightarrow> f a s')"

definition seqP :: "unit prog \<Rightarrow> 'b prog \<Rightarrow> 'b prog" where
  "seqP m n = bindP m (\<lambda>_. n)"

definition evalP :: "(df \<Rightarrow> exn + 'a) \<Rightarrow> 'a prog" where
  "evalP g = (\<lambda>s. (g s, s))"

definition assignP :: "string \<Rightarrow> cell list option \<Rightarrow> unit prog" where
  "assignP name v = (\<lambda>s. (Inr (), set_column name v s))"

definition skipP :: "unit prog" where
  "skipP = (\<lambda>s. (Inr (), s))"

text \<open>\<^verbatim>\<open>try: m except KeyError: h\<close>\<close>

definition except_KeyError :: "unit prog \<Rightarrow> unit prog \<Rightarrow> unit prog" where
  "except_KeyError m h =
     (\<lambda>s. case m s of (Inl (KeyError k), s') \<Rightarrow> h s' | r \<Rightarrow> r)"

text \<open>\<^verbatim>\<open>df[name] = frame[key]\<close>\<close>

definition assign_from :: "string \<Rightarrow> frame \<Rightarrow> string \<Rightarrow> unit prog" where
  "assign_from name f key =
     bindP (evalP (\<lambda>s. frame_getitem f key)) (\<lambda>c. assignP name (Some c))"

definition bb_block :: "frame \<Rightarrow> unit prog" where
  "bb_block bb =
     except_KeyError
       (seqP (assign_from ''bb_upper'' bb ''BBU_20_2.0'')
       (seqP (assign_from ''bb_middle'' bb ''BBM_20_2.0'')
             (assign_from ''bb_lower'' bb ''BBL_20_2.0'')))
       (except_KeyError
          (seqP (assign_from ''bb_upper'' bb ''BBU_20_2'')
          (seqP (assign_from ''bb_middle'' bb ''BBM_20_2'')
                (assign_from ''bb_lower'' bb ''BBL_20_2'')))
          (if length bb \<ge> 3 then
             seqP (assignP ''bb_lower'' (Some (snd (bb ! 0))))
            (seqP (assignP ''bb_middle'' (Some (snd (bb ! 1))))
                  (assignP ''bb_upper'' (Some (snd (bb ! 2)))))
           else skipP))"

definition try_block :: "ta_lib \<Rightarrow> unit prog" where
  "try_block ta =
     bindP (evalP (\<lambda>s. thenE (getcol s ''Close'') (\<lambda>c. ta_rsi ta c RSI_PERIOD))) (\<lambda>rsi.
     seqP (assignP ''rsi'' rsi)
    (bindP (evalP (\<lambda>s. thenE (getcol s ''Close'') (ta_macd ta))) (\<lambda>macd.
     seqP (case macd of
             None \<Rightarrow> skipP
           | Some m \<Rightarrow>
               seqP (assign_from ''macd'' m ''MACD_12_26_9'')
              (seqP (assign_from ''macd_signal'' m ''MACDs_12_26_9'')
                    (assign_from ''macd_histogram'' m ''MACDh_12_26_9'')))
    (bindP (evalP (\<lambda>s. thenE (getcol s ''Close'') (\<lambda>c. ta_sma ta c SMA_SHORT))) (\<lambda>sma_20.
     seqP (assignP ''sma_20'' sma_20)
    (bindP (evalP (\<lambda>s. thenE (getcol s ''Close'') (\<lambda>c. ta_sma ta c SMA_MEDIUM))) (\<lambda>sma_50.
     seqP (assignP ''sma_50'' sma_50)
    (bindP (evalP (\<lambda>s. thenE (getcol s ''Close'') (\<lambda>c. ta_sma ta c SMA_LONG))) (\<lambda>sma_200.
     seqP (assignP ''sma_200'' sma_200)
    (bindP (evalP (\<lambda>s. thenE (getcol s ''Close'') (ta_bbands ta))) (\<lambda>bb.
     seqP (case bb of
             None \<Rightarrow> skipP
           | Some b \<Rightarrow> if frame_empty b then skipP else bb_block b)
    (bindP (evalP (\<lambda>s. thenE (getcol s ''Volume'') (\<lambda>v. ta_sma ta v 20))) (\<lambda>volume_sma_20.
     seqP (assignP ''volume_sma_20'' volume_sma_20)
    (bindP (evalP (\<lambda>s. thenE (getcol s ''High'') (\<lambda>h.
                        thenE (getcol s ''Low'') (\<lambda>l.
                        thenE (getcol s ''Close'') (\<lambda>c. ta_stoch ta h l c))))) (\<lambda>stoch.
     seqP (case stoch of
             None \<Rightarrow> skipP
           | Some st \<Rightarrow>
               seqP (assign_from ''stoch_k'' st ''STOCHk_14_3_3'')
                    (assign_from ''stoch_d'' st ''STOCHd_14_3_3''))
    (bindP (evalP (\<lambda>s. thenE (getcol s ''High'') (\<lambda>h.
                        thenE (getcol s ''Low'') (\<lambda>l.
                        thenE (getcol s ''Close'') (\<lambda>c. ta_atr ta h l c))))) (\<lambda>atr.
     seqP (assignP ''atr'' atr)
    (bindP (evalP (\<lambda>s. thenE (getcol s ''Close'') (\<lambda>c.
                        thenE (getcol s ''Volume'') (\<lambda>v. ta_obv ta c v)))) (\<lambda>obv.
     assignP ''obv'' obv)))))))))))))))))))"

text \<open>
  \<^verbatim>\<open>except Exception\<close> logs the error; either way the frame as it stands is
  returned. None and the empty frame are returned as they are.
\<close>

definition calculate_all_indicators :: "ta_lib \<Rightarrow> df option \<Rightarrow> df option" where
  "calculate_all_indicators ta dfo =
     (case dfo of
        None \<Rightarrow> None
      | Some d \<Rightarrow> if d = [] then Some d else Some (snd (try_block ta d)))"

text \<open>
  The same statements, one indicator at a time. No statement of one indicator reads a
  variable of another, so the block is the sequence of these steps, run until one
  raises; \<open>try_block_steps\<close> below proves it.
\<close>

definition step_column :: "string \<Rightarrow> (df \<Rightarrow> exn + cell list option) \<Rightarrow> unit prog" where
  "step_column name compute = bindP (evalP compute) (assignP name)"

definition step_rsi :: "ta_lib \<Rightarrow> unit prog" where
  "step_rsi ta =
     step_column ''rsi'' (\<lambda>s. thenE (getcol s ''Close'') (\<lambda>c. ta_rsi ta c RSI_PERIOD))"

definition step_macd :: "ta_lib \<Rightarrow> unit prog" where
  "step_macd ta =
     bindP (evalP (\<lambda>s. thenE (getcol s ''Close'') (ta_macd ta))) (\<lambda>macd.
       case macd of
         None \<Rightarrow> skipP
       | Some m \<Rightarrow>
           seqP (assign_from ''macd'' m ''MACD_12_26_9'')
          (seqP (assign_from ''macd_signal'' m ''MACDs_12_26_9'')
                (assign_from ''macd_histogram'' m ''MACDh_12_26_9'')))"

definition step_sma :: "ta_lib \<Rightarrow> string \<Rightarrow> nat \<Rightarrow> unit prog" where
  "step_sma ta name len =
     step_column name (\<lambda>s. thenE (getcol s ''Close'') (\<lambda>c. ta_sma ta c len))"

definition step_bb :: "ta_lib \<Rightarrow> unit prog" where
  "step_bb ta =
     bindP (evalP (\<lambda>s. thenE (getcol s ''Close'') (ta_bbands ta))) (\<lambda>bb.
       case bb of
         None \<Rightarrow> skipP
       | Some b \<Rightarrow> if frame_empty b then skipP else bb_block b)"

definition step_volume_sma :: "ta_lib \<Rightarrow> unit prog" where
  "step_volume_sma ta =
     step_column ''volume_sma_20'' (\<lambda>s. thenE (getcol s ''Volume'') (\<lambda>v. ta_sma ta v 20))"

definition step_stoch :: "ta_lib \<Rightarrow> unit prog" where
  "step_stoch ta =
     bindP (evalP (\<lambda>s. thenE (getcol s ''High'') (\<lambda>h.
                        thenE (getcol s ''Low'') (\<lambda>l.
                        thenE (getcol s ''Close'') (\<lambda>c. ta_stoch ta h l c))))) (\<lambda>stoch.
       case stoch of
         None \<Rightarrow> skipP
       | Some st \<Rightarrow>
           seqP (assign_from ''stoch_k'' st ''STOCHk_14_3_3'')
                (assign_from ''stoch_d'' st ''STOCHd_14_3_3''))"

definition step_atr :: "ta_lib \<Rightarrow> unit prog" where
  "step_atr ta =
     step_column ''atr'' (\<lambda>s. thenE (getcol s ''High'') (\<lambda>h.
                              thenE (getcol s ''Low'') (\<lambda>l.
                              thenE (getcol s ''Close'') (\<lambda>c. ta_atr ta h l c))))"

definition step_obv :: "ta_lib \<Rightarrow> unit prog" where
  "step_obv ta =
     step_column ''obv'' (\<lambda>s. thenE (getcol s ''Close'') (\<lambda>c.
                              thenE (getcol s ''Volume'') (\<lambda>v. ta_obv ta c v)))"

definition indicator_steps :: "ta_lib \<Rightarrow> unit prog list" where
  "indicator_steps ta =
     [step_rsi ta, step_macd ta, step_sma ta ''sma_20'' SMA_SHORT,
      step_sma ta ''sma_50'' SMA_MEDIUM, step_sma ta ''sma_200'' SMA_LONG, step_bb ta,
      step_volume_sma ta, step_stoch ta, step_atr ta, step_obv ta]"

text \<open>Running statements in sequence: the first one that raises ends the run.\<close>

fun run_steps :: "unit prog list \<Rightarrow> unit prog" where
  "run_steps [] s = (Inr (), s)"
| "run_steps (m # ms) s =
     (case m s of (Inl e, s') \<Rightarrow> (Inl e, s') | (Inr u, s') \<Rightarrow> run_steps ms s')"

section \<open>scoring\_engine.py\<close>

text \<open>
  The data fetcher (which catches its own errors and returns None), the indicator
  library and the clock are the environment of the scoring engine.
\<close>

record env =
  fetch_price_data :: "string \<Rightarrow> df option"
  fetch_fundamental_data :: "string \<Rightarrow> fdata option"
  talib :: ta_lib
  today :: string

text \<open>
  The result dictionary. An error result has the key \<^verbatim>\<open>'error'\<close> and none of the
  four signal and metric keys, which are empty here; the reasoning text is not
  modelled.
\<close>

record result =
  symbol :: string
  overall_score :: real
  technical_score :: real
  fundamental_score :: real
  recommendation :: string
  current_price :: "cell option"
  date :: string
  error :: "string option"
  technical_signals :: signals
  fundamental_signals :: fsignals
  latest_indicators :: "(string \<times> cell option) list"
  fundamental_metrics :: fdata

definition generate_recommendation :: "real \<Rightarrow> string" where
  "generate_recommendation sc =
     (if sc \<ge> 80 then ''STRONG BUY''
      else if sc \<ge> 65 then ''BUY''
      else if sc \<ge> 45 then ''HOLD''
      else if sc \<ge> 30 then ''SELL''
      else ''STRONG SELL'')"

definition create_error_result :: "env \<Rightarrow> string \<Rightarrow> string \<Rightarrow> result" where
  "create_error_result e symb error_message =
     \<lparr>symbol = symb, overall_score = 50, technical_score = 50, fundamental_score = 50,
      recommendation = ''HOLD'', current_price = None, date = today e,
      error = Some error_message, technical_signals = [], fundamental_signals = [],
      latest_indicators = [], fundamental_metrics = []\<rparr>"

text \<open>
  Lines 65 to 103 of \<^verbatim>\<open>score_stock\<close>: the combination of the two results.
  \<^verbatim>\<open>technical_result['score']\<close> raises KeyError on the no-data dictionary. The
  recommendation is taken from the score before it is rounded.
\<close>

definition combine_results :: "env \<Rightarrow> string \<Rightarrow> tech_out \<Rightarrow> fund_result \<Rightarrow> exn + result" where
  "combine_results e symb technical_result fundamental_result =
     (case technical_result of
        TechError msg \<Rightarrow> Inl (KeyError ''score'')
      | TechResult tr \<Rightarrow>
          let technical_score = tscore tr;
              fundamental_score = fscore fundamental_result;
              overall = technical_score * TECHNICAL_WEIGHT + fundamental_score * FUNDAMENTAL_WEIGHT
          in Inr \<lparr>symbol = symb, overall_score = round2 overall,
                  technical_score = technical_score, fundamental_score = fundamental_score,
                  recommendation = generate_recommendation overall,
                  current_price = Some (tcurrent_price tr), date = today e, error = None,
                  technical_signals = tsignals tr,
                  fundamental_signals = fsignals fundamental_result,
                  latest_indicators = tlatest_indicators tr,
                  fundamental_metrics = fmetrics fundamental_result\<rparr>)"

definition df_missing :: "df option \<Rightarrow> bool" where
  "df_missing p = (case p of None \<Rightarrow> True | Some d \<Rightarrow> d = [])"

definition score_stock :: "env \<Rightarrow> string \<Rightarrow> df option \<Rightarrow> fdata option \<Rightarrow> exn + result" where
  "score_stock e symb price_data0 fundamental_data0 =
     (let price_data = (if df_missing price_data0 then fetch_price_data e symb else price_data0)
      in if df_missing price_data then Inr (create_error_result e symb ''No price data available'')
         else
           let fundamental_data =
                 (if fundamental_data0 = None then fetch_fundamental_data e symb
                  else fundamental_data0);
               price_data_with_indicators = calculate_all_indicators (talib e) price_data
           in thenE (generate_technical_signals (the price_data_with_indicators))
                (\<lambda>technical_result.
                   combine_results e symb technical_result
                     (analyze_fundamentals
                        (case fundamental_data of None \<Rightarrow> [] | Some fd \<Rightarrow> fd))))"

text \<open>\<^verbatim>\<open>str(e)\<close>; the text of a KeyError is the quoted key.\<close>

fun str_exn :: "exn \<Rightarrow> string" where
  "str_exn (KeyError k) = [CHR 0x27] @ k @ [CHR 0x27]"
| "str_exn (TypeError m) = m"
| "str_exn (Exception m) = m"

text \<open>
  The body of the loop of \<^verbatim>\<open>score_portfolio\<close>: the result of the symbol, or
  the error result when scoring it raises.
\<close>

definition try_score :: "env \<Rightarrow> string \<Rightarrow> result" where
  "try_score e symb =
     (case score_stock e symb None None of
        Inr r \<Rightarrow> r
      | Inl ex \<Rightarrow> create_error_result e symb (str_exn ex))"

text \<open>The loop, appending to \<^verbatim>\<open>results\<close>.\<close>

fun portfolio_loop :: "env \<Rightarrow> string list \<Rightarrow> result list \<Rightarrow> result list" where
  "portfolio_loop e [] results = results"
| "portfolio_loop e (symb # rest) results = portfolio_loop e rest (results @ [try_score e symb])"

text \<open>
  \<^verbatim>\<open>results.sort(key=..., reverse=True)\<close>: a stable sort, descending; results
  with equal scores keep their order.
\<close>

definition sort_descending :: "result list \<Rightarrow> result list" where
  "sort_descending rs = sort_key (\<lambda>r. - overall_score r) rs"

definition score_portfolio :: "env \<Rightarrow> string list \<Rightarrow> result list" where
  "score_portfolio e symbols = sort_descending (portfolio_loop e symbols [])"

section \<open>The sums of the score formula\<close>

text \<open>
  The sub-signals that contribute to the technical score, each with its weight: the
  entries of \<open>weights\<close>, in order, whose signal is present and not None.
\<close>

definition contributing_of :: "(string \<times> real) list \<Rightarrow> signals \<Rightarrow> (sig \<times> real) list" where
  "contributing_of ws sg =
     concat (map (\<lambda>(n, w). case signals_get sg n of None \<Rightarrow> [] | Some s \<Rightarrow> [(s, w)]) ws)"

definition contributing :: "signals \<Rightarrow> (sig \<times> real) list" where
  "contributing sg = contributing_of weights sg"

definition sum_strength_weight :: "(sig \<times> real) list \<Rightarrow> real" where
  "sum_strength_weight c = (\<Sum>(s, w)\<leftarrow>c. real_of_int (strength s) * w)"

definition sum_two_weight :: "(sig \<times> real) list \<Rightarrow> real" where
  "sum_two_weight c = (\<Sum>(s, w)\<leftarrow>c. 2 * w)"

definition sum_weight :: "(sig \<times> real) list \<Rightarrow> real" where
  "sum_weight c = (\<Sum>(s, w)\<leftarrow>c. w)"

text \<open>
  The formula as the specification writes it, whose divisor is twice the sum of the
  weights; it is compared with the code below.
\<close>

definition spec_technical_score :: "signals \<Rightarrow> real" where
  "spec_technical_score sg =
     ((sum_strength_weight (contributing sg) + sum_two_weight (contributing sg))
        / (2 * sum_weight (contributing sg))) * 100"

text \<open>The metrics that contribute to the fundamental score, each with its weight.\<close>

definition fweight :: "string \<Rightarrow> real" where
  "fweight metric_name = (case map_of benchmarks metric_name of None \<Rightarrow> 1 | Some b \<Rightarrow> bm_weight b)"

definition fcontributing :: "fsignals \<Rightarrow> (sig \<times> real) list" where
  "fcontributing sg = map (\<lambda>(n, s). (s, fweight n)) sg"

section \<open>Example inputs\<close>

definition macd_example_previous :: row where
  "macd_example_previous = [''macd'' \<mapsto> Num (-(1/2)), ''macd_signal'' \<mapsto> Num (-(3/10))]"

definition macd_example_latest :: row where
  "macd_example_latest = [''macd'' \<mapsto> Num (2/10), ''macd_signal'' \<mapsto> Num (1/10)]"

text \<open>
  A frame of one row whose RSI is missing and whose MACD is above its signal line, and
  the signals the classifier builds from it.
\<close>

definition missing_rsi_row :: row where
  "missing_rsi_row =
     [''Close'' \<mapsto> Num 100, ''Volume'' \<mapsto> Num 1000, ''rsi'' \<mapsto> NaN,
      ''macd'' \<mapsto> Num 1, ''macd_signal'' \<mapsto> Num 0,
      ''sma_20'' \<mapsto> NaN, ''sma_50'' \<mapsto> NaN, ''sma_200'' \<mapsto> NaN]"

definition missing_rsi_frame :: df where
  "missing_rsi_frame = [missing_rsi_row]"

definition missing_rsi_signals :: signals where
  "missing_rsi_signals =
     [(''rsi_signal'', Some \<lparr>signal = ''neutral'', strength = 0, extras = [(''value'', PyNone)]\<rparr>),
      (''macd_signal'', Some \<lparr>signal = ''bullish'', strength = 1, extras = [(''crossover'', PyNone)]\<rparr>),
      (''ma_signal'', Some \<lparr>signal = ''neutral'', strength = 0, extras = []\<rparr>),
      (''bb_signal'', Some \<lparr>signal = ''neutral'', strength = 0, extras = []\<rparr>),
      (''volume_signal'', Some \<lparr>signal = ''neutral'', strength = 0, extras = []\<rparr>),
      (''trend_signal'', Some \<lparr>signal = ''neutral'', strength = 0, extras = []\<rparr>),
      (''stoch_signal'', None)]"

definition missing_rsi_result :: tech_result where
  "missing_rsi_result =
     \<lparr>tscore = 5568/100, tsignals = missing_rsi_signals, tcurrent_price = Num 100,
      tlatest_indicators =
        [(''rsi'', Some NaN), (''macd'', Some (Num 1)), (''sma_20'', Some NaN),
         (''sma_50'', Some NaN), (''sma_200'', Some NaN)]\<rparr>"


text \<open>A frame of one row with an oversold RSI and nothing else to report.\<close>

definition rsi_oversold_frame :: df where
  "rsi_oversold_frame =
     [[''Close'' \<mapsto> Num 100, ''Volume'' \<mapsto> Num 1000, ''rsi'' \<mapsto> Num 25,
       ''sma_20'' \<mapsto> NaN, ''sma_50'' \<mapsto> NaN, ''sma_200'' \<mapsto> NaN]]"

definition rsi_oversold_signals :: signals where
  "rsi_oversold_signals =
     [(''rsi_signal'', Some \<lparr>signal = ''bullish'', strength = 2, extras = [(''value'', PyNum 25)]\<rparr>),
      (''macd_signal'', Some \<lparr>signal = ''neutral'', strength = 0, extras = []\<rparr>),
      (''ma_signal'', Some \<lparr>signal = ''neutral'', strength = 0, extras = []\<rparr>),
      (''bb_signal'', Some \<lparr>signal = ''neutral'', strength = 0, extras = []\<rparr>),
      (''volume_signal'', Some \<lparr>signal = ''neutral'', strength = 0, extras = []\<rparr>),
      (''trend_signal'', Some \<lparr>signal = ''neutral'', strength = 0, extras = []\<rparr>),
      (''stoch_signal'', None)]"

definition rsi_oversold_result :: tech_result where
  "rsi_oversold_result =
     \<lparr>tscore = 5909/100, tsignals = rsi_oversold_signals, tcurrent_price = Num 100,
      tlatest_indicators =
        [(''rsi'', Some (Num 25)), (''macd'', None), (''sma_20'', Some NaN),
         (''sma_50'', Some NaN), (''sma_200'', Some NaN)]\<rparr>"

text \<open>Signal dictionaries whose contributing strengths are all -2, and all +2.\<close>

definition all_bearish_signals :: signals where
  "all_bearish_signals =
     [(''rsi_signal'', Some \<lparr>signal = ''bearish'', strength = -2, extras = [(''value'', PyNum 75)]\<rparr>),
      (''macd_signal'',
         Some \<lparr>signal = ''bearish'', strength = -2, extras = [(''crossover'', PyStr ''bearish'')]\<rparr>),
      (''ma_signal'',
         Some \<lparr>signal = ''bearish'', strength = -2, extras = [(''pattern'', PyStr ''death_cross'')]\<rparr>),
      (''stoch_signal'', None)]"

definition all_bullish_signals :: signals where
  "all_bullish_signals =
     [(''rsi_signal'', Some \<lparr>signal = ''bullish'', strength = 2, extras = [(''value'', PyNum 25)]\<rparr>),
      (''macd_signal'',
         Some \<lparr>signal = ''bullish'', strength = 2, extras = [(''crossover'', PyStr ''bullish'')]\<rparr>),
      (''ma_signal'',
         Some \<lparr>signal = ''bullish'', strength = 2, extras = [(''pattern'', PyStr ''golden_cross'')]\<rparr>),
      (''stoch_signal'', None)]"

text \<open>A metrics dictionary with a low P/E ratio only.\<close>

definition pe_only_metrics :: fdata where
  "pe_only_metrics = [(''pe_ratio'', Some 10)]"

text \<open>
  A stub of the indicator library: RSI fails on a close series with a zero and is 25
  otherwise, the moving average returns its input, the others return None.
\<close>

definition stub_ta :: ta_lib where
  "stub_ta =
     \<lparr>ta_rsi = (\<lambda>c n. if Num 0 \<in> set c then Inl (Exception ''rsi failed'')
                       else Inr (Some (map (\<lambda>x. Num 25) c))),
      ta_macd = (\<lambda>c. Inr None),
      ta_sma = (\<lambda>c n. Inr (Some c)),
      ta_bbands = (\<lambda>c. Inr None),
      ta_stoch = (\<lambda>h l c. Inr None),
      ta_atr = (\<lambda>h l c. Inr None),
      ta_obv = (\<lambda>c v. Inr None)\<rparr>"

text \<open>A stub of the library in which RSI succeeds and MACD fails.\<close>

definition macd_failing_ta :: ta_lib where
  "macd_failing_ta = stub_ta\<lparr>ta_macd := (\<lambda>c. Inl (Exception ''macd failed''))\<rparr>"

definition ohlcv_row :: row where
  "ohlcv_row =
     [''Open'' \<mapsto> Num 100, ''High'' \<mapsto> Num 101, ''Low'' \<mapsto> Num 99,
      ''Close'' \<mapsto> Num 100, ''Volume'' \<mapsto> Num 1000]"

definition ohlcv_frame :: df where
  "ohlcv_frame = [ohlcv_row]"

text \<open>The same bar with a close of zero.\<close>

definition zero_close_frame :: df where
  "zero_close_frame = [ohlcv_row(''Close'' \<mapsto> Num 0)]"

text \<open>
  An environment with three symbols: BAD has the frame with the zero close, AAA and
  BBB have the plain frame, and only AAA has fundamentals.
\<close>

definition stub_env :: env where
  "stub_env =
     \<lparr>fetch_price_data = (\<lambda>s. if s = ''BAD'' then Some zero_close_frame else Some ohlcv_frame),
      fetch_fundamental_data = (\<lambda>s. if s = ''AAA'' then Some pe_only_metrics else None),
      talib = stub_ta,
      today = ''2024-01-02''\<rparr>"

text \<open>A technical result with score 70 and a fundamental result with score 50.\<close>

definition score70_result :: tech_result where
  "score70_result =
     \<lparr>tscore = 70, tsignals = [], tcurrent_price = Num 100, tlatest_indicators = []\<rparr>"

definition score50_fundamentals :: fund_result where
  "score50_fundamentals = \<lparr>fscore = 50, fsignals = [], fmetrics = []\<rparr>"

text \<open>
  The plain frame with the indicators of the stub library, the technical result of
  that frame, and the three results of the environment.
\<close>

definition enriched_row :: row where
  "enriched_row =
     ohlcv_row(''rsi'' \<mapsto> Num 25, ''sma_20'' \<mapsto> Num 100, ''sma_50'' \<mapsto> Num 100,
       ''sma_200'' \<mapsto> Num 100, ''volume_sma_20'' \<mapsto> Num 1000, ''atr'' \<mapsto> NaN, ''obv'' \<mapsto> NaN)"

definition stub_signals :: signals where
  "stub_signals =
     [(''rsi_signal'', Some \<lparr>signal = ''bullish'', strength = 2, extras = [(''value'', PyNum 25)]\<rparr>),
      (''macd_signal'', Some \<lparr>signal = ''neutral'', strength = 0, extras = []\<rparr>),
      (''ma_signal'',
         Some \<lparr>signal = ''neutral'', strength = 0, extras = [(''pattern'', PyStr ''mixed'')]\<rparr>),
      (''bb_signal'', Some \<lparr>signal = ''neutral'', strength = 0, extras = []\<rparr>),
      (''volume_signal'',
         Some \<lparr>signal = ''neutral'', strength = 0, extras = [(''volume_ratio'', PyFl (Fin 1))]\<rparr>),
      (''trend_signal'', Some \<lparr>signal = ''neutral'', strength = 0, extras = []\<rparr>),
      (''stoch_signal'', None)]"

definition stub_indicators :: "(string \<times> cell option) list" where
  "stub_indicators =
     [(''rsi'', Some (Num 25)), (''macd'', None), (''sma_20'', Some (Num 100)),
      (''sma_50'', Some (Num 100)), (''sma_200'', Some (Num 100))]"

definition stub_tech_result :: tech_result where
  "stub_tech_result =
     \<lparr>tscore = 5909/100, tsignals = stub_signals, tcurrent_price = Num 100,
      tlatest_indicators = stub_indicators\<rparr>"

definition aaa_result :: result where
  "aaa_result =
     \<lparr>symbol = ''AAA'', overall_score = 7545/100, technical_score = 5909/100,
      fundamental_score = 100, recommendation = ''BUY'', current_price = Some (Num 100),
      date = ''2024-01-02'', error = None, technical_signals = stub_signals,
      fundamental_signals = [(''pe_ratio'', fsig ''bullish'' 2 (Some 10) ''undervalued'')],
      latest_indicators = stub_indicators, fundamental_metrics = pe_only_metrics\<rparr>"

definition bbb_result :: result where
  "bbb_result =
     \<lparr>symbol = ''BBB'', overall_score = 5545/100, technical_score = 5909/100,
      fundamental_score = 50, recommendation = ''HOLD'', current_price = Some (Num 100),
      date = ''2024-01-02'', error = None, technical_signals = stub_signals,
      fundamental_signals = [], latest_indicators = stub_indicators,
      fundamental_metrics = []\<rparr>"

definition bad_result :: result where
  "bad_result =
     \<lparr>symbol = ''BAD'', overall_score = 50, technical_score = 50, fundamental_score = 50,
      recommendation = ''HOLD'', current_price = None, date = ''2024-01-02'',
      error = Some (str_exn (KeyError ''rsi'')), technical_signals = [],
      fundamental_signals = [], latest_indicators = [], fundamental_metrics = []\<rparr>"

definition combined_70_50 :: result where
  "combined_70_50 =
     \<lparr>symbol = ''AAA'', overall_score = 62, technical_score = 70, fundamental_score = 50,
      recommendation = ''HOLD'', current_price = Some (Num 100), date = ''2024-01-02'',
      error = None, technical_signals = [], fundamental_signals = [],
      latest_indicators = [], fundamental_metrics = []\<rparr>"

text \<open>
  A stub of the library whose Bollinger Bands fail, one whose Bollinger Bands return two
  columns under other names, and the plain frame as it stands before the Bollinger
  Bands.
\<close>

definition bb_failing_ta :: ta_lib where
  "bb_failing_ta = stub_ta\<lparr>ta_bbands := (\<lambda>c. Inl (Exception ''bbands failed''))\<rparr>"

definition misnamed_bb_ta :: ta_lib where
  "misnamed_bb_ta = stub_ta\<lparr>ta_bbands := (\<lambda>c. Inr (Some [(''lower'', c), (''upper'', c)]))\<rparr>"

definition before_bb_row :: row where
  "before_bb_row =
     ohlcv_row(''rsi'' \<mapsto> Num 25, ''sma_20'' \<mapsto> Num 100, ''sma_50'' \<mapsto> Num 100,
       ''sma_200'' \<mapsto> Num 100)"

section \<open>Auxiliary lemmas\<close>

lemma score_loop_sums:
  "score_loop ws sg (a, b) =
     (a + sum_strength_weight (contributing_of ws sg), b + sum_two_weight (contributing_of ws sg))"
proof (induction ws arbitrary: a b)
  case Nil
  then show ?case
    by (simp add: contributing_of_def sum_strength_weight_def sum_two_weight_def)
next
  case (Cons p ws)
  obtain n w where p: "p = (n, w)" by (cases p)
  show ?case
  proof (cases "signals_get sg n")
    case None
    then show ?thesis using Cons.IH [of a b]
      by (simp add: p contributing_of_def sum_strength_weight_def sum_two_weight_def)
  next
    case (Some s)
    then show ?thesis
      using Cons.IH [of "a + real_of_int (strength s) * w" "b + 2 * w"]
      by (simp add: p contributing_of_def sum_strength_weight_def sum_two_weight_def)
  qed
qed

lemma weights_positive: "(n, w) \<in> set weights \<Longrightarrow> w > 0"
  by (auto simp: weights_def)

lemma contributing_weight_positive:
  assumes "\<And>n w. (n, w) \<in> set ws \<Longrightarrow> w > 0" and "(s, w) \<in> set (contributing_of ws sg)"
  shows "w > 0"
  using assms by (auto simp: contributing_of_def split: option.splits)

lemma sum_two_weight_nonneg:
  assumes "\<And>s w. (s, w) \<in> set c \<Longrightarrow> w > 0"
  shows "sum_two_weight c \<ge> 0"
  using assms
proof (induction c)
  case Nil
  then show ?case by (simp add: sum_two_weight_def)
next
  case (Cons p c)
  obtain s w where p: "p = (s, w)" by (cases p)
  have "w > 0" using Cons.prems [of s w] by (simp add: p)
  moreover have "sum_two_weight c \<ge> 0" using Cons.IH Cons.prems by auto
  ultimately show ?case by (simp add: p sum_two_weight_def)
qed

lemma sum_two_weight_pos:
  assumes "\<And>s w. (s, w) \<in> set c \<Longrightarrow> w > 0" and "c \<noteq> []"
  shows "sum_two_weight c > 0"
proof (cases c)
  case Nil
  then show ?thesis using assms by simp
next
  case (Cons p c')
  obtain s w where p: "p = (s, w)" by (cases p)
  have "w > 0" using assms(1) [of s w] by (simp add: Cons p)
  moreover have "sum_two_weight c' \<ge> 0"
    using assms(1) by (intro sum_two_weight_nonneg) (auto simp: Cons)
  ultimately show ?thesis by (simp add: Cons p sum_two_weight_def)
qed

lemma sum_strength_bounds:
  assumes "\<And>s w. (s, w) \<in> set c \<Longrightarrow> w > 0"
    and "\<And>s w. (s, w) \<in> set c \<Longrightarrow> -2 \<le> strength s \<and> strength s \<le> 2"
  shows "- sum_two_weight c \<le> sum_strength_weight c \<and> sum_strength_weight c \<le> sum_two_weight c"
  using assms
proof (induction c)
  case Nil
  then show ?case by (simp add: sum_two_weight_def sum_strength_weight_def)
next
  case (Cons p c)
  obtain s w where p: "p = (s, w)" by (cases p)
  have w: "w > 0" using Cons.prems(1) [of s w] by (simp add: p)
  have st: "-2 \<le> strength s \<and> strength s \<le> 2" using Cons.prems(2) [of s w] by (simp add: p)
  have IH: "- sum_two_weight c \<le> sum_strength_weight c \<and> sum_strength_weight c \<le> sum_two_weight c"
    using Cons.IH Cons.prems by auto
  have a: "real_of_int (strength s) * w \<le> 2 * w"
    using st w by (simp add: mult_right_mono)
  have b: "- (2 * w) \<le> real_of_int (strength s) * w"
  proof -
    have "(-2) * w \<le> real_of_int (strength s) * w"
      using st w by (intro mult_right_mono) auto
    then show ?thesis by simp
  qed
  show ?case using IH a b by (simp add: p sum_two_weight_def sum_strength_weight_def)
qed

lemma round_half_even_mono_bounds:
  assumes "of_int a \<le> x" and "x \<le> of_int b"
  shows "a \<le> round_half_even x \<and> round_half_even x \<le> b"
proof -
  have f1: "a \<le> \<lfloor>x\<rfloor>" using assms(1) by (simp add: le_floor_iff)
  have f2: "\<lfloor>x\<rfloor> \<le> b" using assms(2) by (simp add: floor_le_iff)
  have f3: "x - of_int \<lfloor>x\<rfloor> > 0 \<Longrightarrow> \<lfloor>x\<rfloor> + 1 \<le> b"
  proof -
    assume "x - of_int \<lfloor>x\<rfloor> > 0"
    then have "of_int \<lfloor>x\<rfloor> < x" by simp
    then have "of_int \<lfloor>x\<rfloor> < (of_int b :: real)" using assms(2) by linarith
    then have "\<lfloor>x\<rfloor> < b" by simp
    then show ?thesis by simp
  qed
  show ?thesis
    using f1 f2 f3 by (auto simp: round_half_even_def Let_def)
qed

lemma round2_bounds:
  assumes "0 \<le> x" and "x \<le> 100"
  shows "0 \<le> round2 x \<and> round2 x \<le> 100"
proof -
  have "0 \<le> round_half_even (x * 100) \<and> round_half_even (x * 100) \<le> 10000"
    using assms by (intro round_half_even_mono_bounds) auto
  then show ?thesis by (simp add: round2_def divide_le_eq)
qed

lemma round2_of_int: "round2 (of_int n) = of_int n"
proof -
  have "real_of_int n * 100 = of_int (n * 100)" by simp
  then have "round_half_even (real_of_int n * 100) = n * 100"
    unfolding round_half_even_def Let_def by (simp only: floor_of_int) simp
  then show ?thesis by (simp add: round2_def)
qed

lemma analyze_rsi_strength: "-2 \<le> strength (analyze_rsi c) \<and> strength (analyze_rsi c) \<le> 2"
  by (simp add: analyze_rsi_def split: cell.splits)

lemma analyze_macd_strength:
  "-2 \<le> strength (analyze_macd l p) \<and> strength (analyze_macd l p) \<le> 2"
  by (simp add: analyze_macd_def Let_def)

lemma analyze_moving_averages_strength:
  "analyze_moving_averages r = Inr s \<Longrightarrow> -2 \<le> strength s \<and> strength s \<le> 2"
  by (auto simp: analyze_moving_averages_def thenE_def split: sum.splits if_splits)

lemma analyze_bollinger_bands_strength:
  "analyze_bollinger_bands r = Inr s \<Longrightarrow> -2 \<le> strength s \<and> strength s \<le> 2"
  by (auto simp: analyze_bollinger_bands_def thenE_def Let_def split: sum.splits if_splits option.splits)

lemma analyze_volume_strength:
  "analyze_volume r = Inr s \<Longrightarrow> -2 \<le> strength s \<and> strength s \<le> 2"
  by (auto simp: analyze_volume_def thenE_def Let_def split: sum.splits if_splits)

lemma analyze_trend_strength:
  "analyze_trend d n = Inr s \<Longrightarrow> -2 \<le> strength s \<and> strength s \<le> 2"
  by (auto simp: analyze_trend_def thenE_def Let_def split: sum.splits if_splits)

lemma analyze_stochastic_strength:
  "-2 \<le> strength (analyze_stochastic r) \<and> strength (analyze_stochastic r) \<le> 2"
  by (simp add: analyze_stochastic_def Let_def)


lemma contributing_of_mem:
  assumes "(s, w) \<in> set (contributing_of ws sg)"
  shows "\<exists>n. (n, w) \<in> set ws \<and> signals_get sg n = Some s"
  using assms by (auto simp: contributing_of_def split: option.splits)

lemma ratio_bounds:
  fixes t m :: real
  assumes "m > 0" and "- m \<le> t" and "t \<le> m"
  shows "0 \<le> ((t + m) / (2 * m)) * 100 \<and> ((t + m) / (2 * m)) * 100 \<le> 100"
proof -
  define q where "q = (t + m) / (2 * m)"
  have "0 \<le> q" using assms by (simp add: q_def)
  moreover have "q \<le> 1" using assms by (simp add: q_def divide_le_eq)
  ultimately have "0 \<le> q * 100 \<and> q * 100 \<le> 100" by simp
  then show ?thesis by (simp only: q_def)
qed

lemma calculate_technical_score_sums:
  "calculate_technical_score sg =
     round2 (if sum_two_weight (contributing sg) > 0
             then ((sum_strength_weight (contributing sg) + sum_two_weight (contributing sg))
                    / (2 * sum_two_weight (contributing sg))) * 100
             else 50)"
  using score_loop_sums [of weights sg 0 0]
  by (simp add: calculate_technical_score_def contributing_def)

lemma contributing_positive: "(s, w) \<in> set (contributing sg) \<Longrightarrow> w > 0"
  unfolding contributing_def
  using contributing_weight_positive [of weights s w sg] weights_positive by blast

lemma round2_50: "round2 50 = 50"
  using round2_of_int [of 50] by simp

lemma calculate_technical_score_bounds:
  assumes "\<And>n s. signals_get sg n = Some s \<Longrightarrow> -2 \<le> strength s \<and> strength s \<le> 2"
  shows "0 \<le> calculate_technical_score sg \<and> calculate_technical_score sg \<le> 100"
proof -
  let ?c = "contributing sg"
  have pos: "\<And>s w. (s, w) \<in> set ?c \<Longrightarrow> w > 0" by (rule contributing_positive)
  have st: "\<And>s w. (s, w) \<in> set ?c \<Longrightarrow> -2 \<le> strength s \<and> strength s \<le> 2"
    using contributing_of_mem assms unfolding contributing_def by blast
  have b: "- sum_two_weight ?c \<le> sum_strength_weight ?c \<and> sum_strength_weight ?c \<le> sum_two_weight ?c"
    using pos st by (rule sum_strength_bounds)
  show ?thesis
  proof (cases "sum_two_weight ?c > 0")
    case True
    then have "0 \<le> ((sum_strength_weight ?c + sum_two_weight ?c) / (2 * sum_two_weight ?c)) * 100
       \<and> ((sum_strength_weight ?c + sum_two_weight ?c) / (2 * sum_two_weight ?c)) * 100 \<le> 100"
      using b by (intro ratio_bounds) auto
    then show ?thesis
      using True round2_bounds by (simp add: calculate_technical_score_sums)
  next
    case False
    then show ?thesis by (simp add: calculate_technical_score_sums round2_50)
  qed
qed

lemma generate_technical_signals_result:
  assumes "generate_technical_signals d = Inr (TechResult tr)"
  shows "\<exists>rsi ma bb vol trd.
           analyze_moving_averages (last d) = Inr ma \<and>
           analyze_bollinger_bands (last d) = Inr bb \<and>
           analyze_volume (last d) = Inr vol \<and>
           analyze_trend d 20 = Inr trd \<and>
           getitem (last d) ''rsi'' = Inr rsi \<and>
           tsignals tr =
             [(''rsi_signal'', Some (analyze_rsi rsi)),
              (''macd_signal'',
                 Some (analyze_macd (last d) (if length d > 1 then d ! (length d - 2) else last d))),
              (''ma_signal'', Some ma), (''bb_signal'', Some bb), (''volume_signal'', Some vol),
              (''trend_signal'', Some trd),
              (''stoch_signal'',
                 if last d ''stoch_k'' \<noteq> None then Some (analyze_stochastic (last d)) else None)] \<and>
           tscore tr = calculate_technical_score (tsignals tr)"
  using assms unfolding generate_technical_signals_def thenE_def Let_def
  by (auto split: if_splits sum.splits)

lemma generate_technical_signals_strengths:
  assumes "generate_technical_signals d = Inr (TechResult tr)"
    and "(n, Some s) \<in> set (tsignals tr)"
  shows "-2 \<le> strength s \<and> strength s \<le> 2"
proof -
  obtain rsi ma bb vol trd where
    ma: "analyze_moving_averages (last d) = Inr ma" and
    bb: "analyze_bollinger_bands (last d) = Inr bb" and
    vol: "analyze_volume (last d) = Inr vol" and
    trd: "analyze_trend d 20 = Inr trd" and
    sg: "tsignals tr =
             [(''rsi_signal'', Some (analyze_rsi rsi)),
              (''macd_signal'',
                 Some (analyze_macd (last d) (if length d > 1 then d ! (length d - 2) else last d))),
              (''ma_signal'', Some ma), (''bb_signal'', Some bb), (''volume_signal'', Some vol),
              (''trend_signal'', Some trd),
              (''stoch_signal'',
                 if last d ''stoch_k'' \<noteq> None then Some (analyze_stochastic (last d)) else None)]"
    using generate_technical_signals_result [OF assms(1)] by blast
  from assms(2) sg consider
      "s = analyze_rsi rsi"
    | "s = analyze_macd (last d) (if length d > 1 then d ! (length d - 2) else last d)"
    | "s = ma" | "s = bb" | "s = vol" | "s = trd" | "s = analyze_stochastic (last d)"
    by (auto split: if_splits)
  then show ?thesis
  proof cases
    case 1 then show ?thesis using analyze_rsi_strength by simp
  next
    case 2 then show ?thesis using analyze_macd_strength by simp
  next
    case 3 then show ?thesis using analyze_moving_averages_strength [OF ma] by simp
  next
    case 4 then show ?thesis using analyze_bollinger_bands_strength [OF bb] by simp
  next
    case 5 then show ?thesis using analyze_volume_strength [OF vol] by simp
  next
    case 6 then show ?thesis using analyze_trend_strength [OF trd] by simp
  next
    case 7 then show ?thesis using analyze_stochastic_strength by simp
  qed
qed

lemma signals_get_mem: "signals_get sg n = Some s \<Longrightarrow> (n, Some s) \<in> set sg"
  by (auto simp: signals_get_def split: option.splits dest: map_of_SomeD)

lemma generate_technical_signals_score:
  assumes "generate_technical_signals d = Inr (TechResult tr)"
  shows "0 \<le> tscore tr \<and> tscore tr \<le> 100"
proof -
  have "tscore tr = calculate_technical_score (tsignals tr)"
    using generate_technical_signals_result [OF assms] by blast
  moreover have "0 \<le> calculate_technical_score (tsignals tr) \<and>
      calculate_technical_score (tsignals tr) \<le> 100"
    using generate_technical_signals_strengths [OF assms] signals_get_mem
    by (intro calculate_technical_score_bounds) blast
  ultimately show ?thesis by simp
qed

lemma fsig_strength: "strength (fsig dir st v interp) = st"
  by (simp add: fsig_def)

lemma fsig_neutral_strength: "strength (fsig_neutral v) = 0"
  by (simp add: fsig_neutral_def)

lemma analyze_pe_ratio_strength:
  "-2 \<le> strength (analyze_pe_ratio v) \<and> strength (analyze_pe_ratio v) \<le> 2"
  by (simp add: analyze_pe_ratio_def fsig_strength fsig_neutral_strength split: option.splits)

lemma analyze_profit_margin_strength:
  "-2 \<le> strength (analyze_profit_margin v) \<and> strength (analyze_profit_margin v) \<le> 2"
  by (simp add: analyze_profit_margin_def fsig_strength fsig_neutral_strength split: option.splits)

lemma analyze_debt_to_equity_strength:
  "-2 \<le> strength (analyze_debt_to_equity v) \<and> strength (analyze_debt_to_equity v) \<le> 2"
  by (simp add: analyze_debt_to_equity_def fsig_strength fsig_neutral_strength split: option.splits)

lemma analyze_growth_metric_strength:
  "-2 \<le> strength (analyze_growth_metric v k) \<and> strength (analyze_growth_metric v k) \<le> 2"
  by (simp add: analyze_growth_metric_def Let_def fsig_strength fsig_neutral_strength
      split: option.splits)

lemma analyze_profitability_metric_strength:
  "-2 \<le> strength (analyze_profitability_metric v k) \<and>
   strength (analyze_profitability_metric v k) \<le> 2"
  by (simp add: analyze_profitability_metric_def Let_def fsig_strength fsig_neutral_strength
      split: option.splits)

lemma analyze_current_ratio_strength:
  "-2 \<le> strength (analyze_current_ratio v) \<and> strength (analyze_current_ratio v) \<le> 2"
  by (simp add: analyze_current_ratio_def fsig_strength fsig_neutral_strength split: option.splits)

lemma add_signal_strengths:
  assumes "\<And>n s. (n, s) \<in> set sg \<Longrightarrow> -2 \<le> strength s \<and> strength s \<le> 2"
    and "\<And>v. -2 \<le> strength (f v) \<and> strength (f v) \<le> 2"
    and "(n, s) \<in> set (add_signal fd k f sg)"
  shows "-2 \<le> strength s \<and> strength s \<le> 2"
proof (cases "map_of fd k")
  case None
  then show ?thesis using assms(1) assms(3) by (simp add: add_signal_def)
next
  case (Some v)
  then have "(n, s) \<in> set sg \<or> s = f v" using assms(3) by (auto simp: add_signal_def)
  then show ?thesis using assms(1) assms(2) by blast
qed

lemma analyze_fundamentals_strengths:
  assumes "(n, s) \<in> set (fsignals (analyze_fundamentals fd))"
  shows "-2 \<le> strength s \<and> strength s \<le> 2"
proof (cases "fd = []")
  case True
  then show ?thesis using assms by (simp add: analyze_fundamentals_def)
next
  case False
  define sg0 where "sg0 = add_signal fd ''pe_ratio'' analyze_pe_ratio []"
  define sg1 where "sg1 = add_signal fd ''profit_margin'' analyze_profit_margin sg0"
  define sg2 where "sg2 = add_signal fd ''debt_to_equity'' analyze_debt_to_equity sg1"
  define sg3 where "sg3 = add_signal fd ''revenue_growth''
                    (\<lambda>v. analyze_growth_metric v ''revenue_growth'') sg2"
  define sg4 where "sg4 = add_signal fd ''return_on_equity''
                    (\<lambda>v. analyze_profitability_metric v ''return_on_equity'') sg3"
  define sg5 where "sg5 = add_signal fd ''return_on_assets''
                    (\<lambda>v. analyze_profitability_metric v ''return_on_assets'') sg4"
  define sg6 where "sg6 = add_signal fd ''earnings_growth''
                    (\<lambda>v. analyze_growth_metric v ''earnings_growth'') sg5"
  define sg7 where "sg7 = add_signal fd ''current_ratio'' analyze_current_ratio sg6"
  define sg8 where "sg8 = add_signal fd ''operating_margin''
                    (\<lambda>v. analyze_profitability_metric v ''operating_margin'') sg7"
  have eq: "fsignals (analyze_fundamentals fd) = sg8"
    using False
    by (simp add: analyze_fundamentals_def Let_def sg0_def sg1_def sg2_def sg3_def sg4_def
        sg5_def sg6_def sg7_def sg8_def)
  have b0: "\<And>n s. (n, s) \<in> set sg0 \<Longrightarrow> -2 \<le> strength s \<and> strength s \<le> 2"
    unfolding sg0_def by (rule add_signal_strengths [where sg = "[]"]) (auto simp: analyze_pe_ratio_strength)
  have b1: "\<And>n s. (n, s) \<in> set sg1 \<Longrightarrow> -2 \<le> strength s \<and> strength s \<le> 2"
    unfolding sg1_def using b0 analyze_profit_margin_strength by (rule add_signal_strengths)
  have b2: "\<And>n s. (n, s) \<in> set sg2 \<Longrightarrow> -2 \<le> strength s \<and> strength s \<le> 2"
    unfolding sg2_def using b1 analyze_debt_to_equity_strength by (rule add_signal_strengths)
  have b3: "\<And>n s. (n, s) \<in> set sg3 \<Longrightarrow> -2 \<le> strength s \<and> strength s \<le> 2"
    unfolding sg3_def using b2 analyze_growth_metric_strength by (rule add_signal_strengths)
  have b4: "\<And>n s. (n, s) \<in> set sg4 \<Longrightarrow> -2 \<le> strength s \<and> strength s \<le> 2"
    unfolding sg4_def using b3 analyze_profitability_metric_strength by (rule add_signal_strengths)
  have b5: "\<And>n s. (n, s) \<in> set sg5 \<Longrightarrow> -2 \<le> strength s \<and> strength s \<le> 2"
    unfolding sg5_def using b4 analyze_profitability_metric_strength by (rule add_signal_strengths)
  have b6: "\<And>n s. (n, s) \<in> set sg6 \<Longrightarrow> -2 \<le> strength s \<and> strength s \<le> 2"
    unfolding sg6_def using b5 analyze_growth_metric_strength by (rule add_signal_strengths)
  have b7: "\<And>n s. (n, s) \<in> set sg7 \<Longrightarrow> -2 \<le> strength s \<and> strength s \<le> 2"
    unfolding sg7_def using b6 analyze_current_ratio_strength by (rule add_signal_strengths)
  have b8: "\<And>n s. (n, s) \<in> set sg8 \<Longrightarrow> -2 \<le> strength s \<and> strength s \<le> 2"
    unfolding sg8_def using b7 analyze_profitability_metric_strength by (rule add_signal_strengths)
  show ?thesis using b8 assms eq by simp
qed

lemma fscore_loop_sums:
  "fscore_loop sg (a, b) =
     (a + sum_strength_weight (fcontributing sg), b + sum_two_weight (fcontributing sg))"
proof (induction sg arbitrary: a b)
  case Nil
  then show ?case by (simp add: fcontributing_def sum_strength_weight_def sum_two_weight_def)
next
  case (Cons p sg)
  obtain n s where p: "p = (n, s)" by (cases p)
  show ?case
    using Cons.IH [of "a + real_of_int (strength s) * fweight n" "b + 2 * fweight n"]
    by (simp add: p fcontributing_def sum_strength_weight_def sum_two_weight_def fweight_def Let_def)
qed

lemma fweight_positive: "fweight n > 0"
  by (simp add: fweight_def benchmarks_def pe_ratio_bm_def profit_margin_bm_def
      debt_to_equity_bm_def revenue_growth_bm_def return_on_equity_bm_def return_on_assets_bm_def
      current_ratio_bm_def earnings_growth_bm_def operating_margin_bm_def)

lemma calculate_fundamental_score_bounds:
  assumes "\<And>n s. (n, s) \<in> set sg \<Longrightarrow> -2 \<le> strength s \<and> strength s \<le> 2"
  shows "0 \<le> calculate_fundamental_score sg \<and> calculate_fundamental_score sg \<le> 100"
proof (cases "sg = []")
  case True
  then show ?thesis by (simp add: calculate_fundamental_score_def)
next
  case False
  let ?c = "fcontributing sg"
  have pos: "\<And>s w. (s, w) \<in> set ?c \<Longrightarrow> w > 0"
    using fweight_positive by (auto simp: fcontributing_def)
  have st: "\<And>s w. (s, w) \<in> set ?c \<Longrightarrow> -2 \<le> strength s \<and> strength s \<le> 2"
    using assms by (auto simp: fcontributing_def)
  have b: "- sum_two_weight ?c \<le> sum_strength_weight ?c \<and> sum_strength_weight ?c \<le> sum_two_weight ?c"
    using pos st by (rule sum_strength_bounds)
  have ne: "?c \<noteq> []" using False by (simp add: fcontributing_def)
  have m: "sum_two_weight ?c > 0" using pos ne by (rule sum_two_weight_pos)
  have "0 \<le> ((sum_strength_weight ?c + sum_two_weight ?c) / (2 * sum_two_weight ?c)) * 100
       \<and> ((sum_strength_weight ?c + sum_two_weight ?c) / (2 * sum_two_weight ?c)) * 100 \<le> 100"
    using m b by (intro ratio_bounds) auto
  then show ?thesis
    using False m round2_bounds fscore_loop_sums [of sg 0 0]
    by (simp add: calculate_fundamental_score_def)
qed

lemma analyze_fundamentals_score:
  "0 \<le> fscore (analyze_fundamentals fd) \<and> fscore (analyze_fundamentals fd) \<le> 100"
proof (cases "fd = []")
  case True
  then show ?thesis by (simp add: analyze_fundamentals_def)
next
  case False
  then have "fscore (analyze_fundamentals fd) =
      calculate_fundamental_score (fsignals (analyze_fundamentals fd))"
    by (simp add: analyze_fundamentals_def Let_def)
  then show ?thesis
    using calculate_fundamental_score_bounds [of "fsignals (analyze_fundamentals fd)"]
      analyze_fundamentals_strengths [of _ _ fd] by simp
qed


lemma missing_rsi_signals_score: "calculate_technical_score missing_rsi_signals = 5568/100"
  by (simp add: calculate_technical_score_def missing_rsi_signals_def weights_def signals_get_def
      round2_def round_half_even_def Let_def)

lemma missing_rsi_frame_result:
  "generate_technical_signals missing_rsi_frame = Inr (TechResult missing_rsi_result)"
proof -
  have sg: "calculate_technical_score missing_rsi_signals = 5568/100"
    by (rule missing_rsi_signals_score)
  show ?thesis
    unfolding generate_technical_signals_def missing_rsi_frame_def missing_rsi_row_def
      missing_rsi_result_def
    apply (simp add: Let_def thenE_def getitem_def analyze_rsi_def analyze_macd_def
      analyze_moving_averages_def analyze_bollinger_bands_def analyze_volume_def
      analyze_trend_def cell_gt_def cell_ge_def)
    using sg by (simp add: missing_rsi_signals_def)
qed

lemma rsi_oversold_signals_score: "calculate_technical_score rsi_oversold_signals = 5909/100"
  by (simp add: calculate_technical_score_def rsi_oversold_signals_def weights_def signals_get_def
      round2_def round_half_even_def Let_def)

lemma rsi_oversold_frame_result:
  "generate_technical_signals rsi_oversold_frame = Inr (TechResult rsi_oversold_result)"
proof -
  have sg: "calculate_technical_score rsi_oversold_signals = 5909/100"
    by (rule rsi_oversold_signals_score)
  show ?thesis
    unfolding generate_technical_signals_def rsi_oversold_frame_def rsi_oversold_result_def
    apply (simp add: Let_def thenE_def getitem_def analyze_rsi_def analyze_macd_def
      analyze_moving_averages_def analyze_bollinger_bands_def analyze_volume_def
      analyze_trend_def cell_gt_def cell_ge_def RSI_OVERSOLD_def)
    using sg by (simp add: rsi_oversold_signals_def)
qed

lemma contributing_Nil: "contributing [] = []"
  by (simp add: contributing_def contributing_of_def weights_def signals_get_def)

lemma pe_only_result:
  "analyze_fundamentals pe_only_metrics =
     \<lparr>fscore = 100,
      fsignals = [(''pe_ratio'', fsig ''bullish'' 2 (Some 10) ''undervalued'')],
      fmetrics = pe_only_metrics\<rparr>"
  by (simp add: analyze_fundamentals_def pe_only_metrics_def add_signal_def Let_def
      analyze_pe_ratio_def pe_ratio_bm_def calculate_fundamental_score_def benchmarks_def
      fsig_def round2_def round_half_even_def)

lemma sum_strength_all:
  assumes "\<And>s w. (s, w) \<in> set c \<Longrightarrow> strength s = k"
  shows "sum_strength_weight c = real_of_int k * sum_weight c"
  using assms
proof (induction c)
  case Nil
  then show ?case by (simp add: sum_strength_weight_def sum_weight_def)
next
  case (Cons p c)
  obtain s w where p: "p = (s, w)" by (cases p)
  have "strength s = k" using Cons.prems [of s w] by (simp add: p)
  moreover have "sum_strength_weight c = real_of_int k * sum_weight c"
    using Cons.IH Cons.prems by auto
  ultimately show ?case
    by (simp add: p sum_strength_weight_def sum_weight_def algebra_simps)
qed

lemma sum_two_weight_eq: "sum_two_weight c = 2 * sum_weight c"
  by (induction c) (auto simp: sum_two_weight_def sum_weight_def)

lemma contributing_sum_pos: "contributing sg \<noteq> [] \<Longrightarrow> sum_two_weight (contributing sg) > 0"
  using sum_two_weight_pos [of "contributing sg"] contributing_positive by blast

lemma contributing_sum_zero: "contributing sg = [] \<Longrightarrow> sum_two_weight (contributing sg) = 0"
  by (simp add: sum_two_weight_def)

lemma contributing_missing_rsi:
  "contributing missing_rsi_signals =
     [(\<lparr>signal = ''neutral'', strength = 0, extras = [(''value'', PyNone)]\<rparr>, 2),
      (\<lparr>signal = ''bullish'', strength = 1, extras = [(''crossover'', PyNone)]\<rparr>, 5/2),
      (\<lparr>signal = ''neutral'', strength = 0, extras = []\<rparr>, 2),
      (\<lparr>signal = ''neutral'', strength = 0, extras = []\<rparr>, 3/2),
      (\<lparr>signal = ''neutral'', strength = 0, extras = []\<rparr>, 1),
      (\<lparr>signal = ''neutral'', strength = 0, extras = []\<rparr>, 2)]"
  by (simp add: contributing_def contributing_of_def weights_def signals_get_def
      missing_rsi_signals_def)

lemma contributing_all_bearish:
  "contributing all_bearish_signals =
     [(\<lparr>signal = ''bearish'', strength = -2, extras = [(''value'', PyNum 75)]\<rparr>, 2),
      (\<lparr>signal = ''bearish'', strength = -2, extras = [(''crossover'', PyStr ''bearish'')]\<rparr>, 5/2),
      (\<lparr>signal = ''bearish'', strength = -2, extras = [(''pattern'', PyStr ''death_cross'')]\<rparr>, 2)]"
  by (simp add: contributing_def contributing_of_def weights_def signals_get_def
      all_bearish_signals_def)

lemma contributing_all_bullish:
  "contributing all_bullish_signals =
     [(\<lparr>signal = ''bullish'', strength = 2, extras = [(''value'', PyNum 25)]\<rparr>, 2),
      (\<lparr>signal = ''bullish'', strength = 2, extras = [(''crossover'', PyStr ''bullish'')]\<rparr>, 5/2),
      (\<lparr>signal = ''bullish'', strength = 2, extras = [(''pattern'', PyStr ''golden_cross'')]\<rparr>, 2)]"
  by (simp add: contributing_def contributing_of_def weights_def signals_get_def
      all_bullish_signals_def)

lemma contributing_rsi_oversold:
  "contributing rsi_oversold_signals =
     [(\<lparr>signal = ''bullish'', strength = 2, extras = [(''value'', PyNum 25)]\<rparr>, 2),
      (\<lparr>signal = ''neutral'', strength = 0, extras = []\<rparr>, 5/2),
      (\<lparr>signal = ''neutral'', strength = 0, extras = []\<rparr>, 2),
      (\<lparr>signal = ''neutral'', strength = 0, extras = []\<rparr>, 3/2),
      (\<lparr>signal = ''neutral'', strength = 0, extras = []\<rparr>, 1),
      (\<lparr>signal = ''neutral'', strength = 0, extras = []\<rparr>, 2)]"
  by (simp add: contributing_def contributing_of_def weights_def signals_get_def
      rsi_oversold_signals_def)

lemma score_loop_cong:
  assumes "\<And>n. n \<in> fst ` set ws \<Longrightarrow> signals_get sg n = signals_get sg' n"
  shows "score_loop ws sg acc = score_loop ws sg' acc"
  using assms
proof (induction ws arbitrary: acc)
  case Nil
  then show ?case by simp
next
  case (Cons p ws)
  obtain n w where p: "p = (n, w)" by (cases p)
  obtain a b where acc: "acc = (a, b)" by (cases acc)
  have h: "signals_get sg n = signals_get sg' n" using Cons.prems [of n] by (simp add: p)
  have IH: "\<And>acc. score_loop ws sg acc = score_loop ws sg' acc"
    using Cons.IH Cons.prems by auto
  show ?case by (simp add: p acc h IH split: option.splits)
qed

lemma signals_get_filter:
  "signals_get (filter (\<lambda>(n, s). n \<noteq> k) sg) m = (if m = k then None else signals_get sg m)"
proof (induction sg)
  case Nil
  then show ?case by (simp add: signals_get_def)
next
  case (Cons p sg)
  obtain n s where p: "p = (n, s)" by (cases p)
  show ?case using Cons.IH by (auto simp: p signals_get_def)
qed

lemma calculate_technical_score_drop_None:
  assumes "signals_get sg k = None"
  shows "calculate_technical_score (filter (\<lambda>(n, s). n \<noteq> k) sg) = calculate_technical_score sg"
proof -
  have "score_loop weights (filter (\<lambda>(n, s). n \<noteq> k) sg) (0, 0) = score_loop weights sg (0, 0)"
    using assms by (intro score_loop_cong) (simp add: signals_get_filter)
  then show ?thesis by (simp add: calculate_technical_score_def)
qed

lemmas prog_defs = bindP_def seqP_def evalP_def assignP_def skipP_def except_KeyError_def
  assign_from_def thenE_def getcol_def

lemma stub_frame_indicators:
  "calculate_all_indicators stub_ta (Some ohlcv_frame) = Some [enriched_row]"
  by (simp add: calculate_all_indicators_def try_block_def prog_defs stub_ta_def ohlcv_frame_def
      ohlcv_row_def enriched_row_def RSI_PERIOD_def SMA_SHORT_def SMA_MEDIUM_def SMA_LONG_def
      enumerate_eq_zip)

lemma zero_close_indicators:
  "calculate_all_indicators stub_ta (Some zero_close_frame) = Some zero_close_frame"
  by (simp add: calculate_all_indicators_def try_block_def prog_defs stub_ta_def
      zero_close_frame_def ohlcv_row_def RSI_PERIOD_def)

lemma stub_signals_score: "calculate_technical_score stub_signals = 5909/100"
  by (simp add: calculate_technical_score_def stub_signals_def weights_def signals_get_def
      round2_def round_half_even_def Let_def)

lemma enriched_frame_result:
  "generate_technical_signals [enriched_row] = Inr (TechResult stub_tech_result)"
proof -
  have sg: "calculate_technical_score stub_signals = 5909/100"
    by (rule stub_signals_score)
  show ?thesis
    unfolding generate_technical_signals_def enriched_row_def ohlcv_row_def stub_tech_result_def
    apply (simp add: Let_def thenE_def getitem_def analyze_rsi_def analyze_macd_def
      analyze_moving_averages_def analyze_bollinger_bands_def analyze_volume_def
      analyze_trend_def cell_gt_def cell_ge_def RSI_OVERSOLD_def VOLUME_SPIKE_THRESHOLD_def
      stub_indicators_def)
    using sg by (simp add: stub_signals_def)
qed

lemma zero_close_frame_raises:
  "generate_technical_signals zero_close_frame = Inl (KeyError ''rsi'')"
  by (simp add: generate_technical_signals_def zero_close_frame_def ohlcv_row_def Let_def
      thenE_def getitem_def)

lemma ohlcv_frame_raises:
  "generate_technical_signals ohlcv_frame = Inl (KeyError ''rsi'')"
  by (simp add: generate_technical_signals_def ohlcv_frame_def ohlcv_row_def Let_def
      thenE_def getitem_def)

lemma score_stock_AAA: "score_stock stub_env ''AAA'' None None = Inr aaa_result"
  by (simp add: score_stock_def stub_env_def df_missing_def ohlcv_frame_def Let_def
      stub_frame_indicators [unfolded ohlcv_frame_def] enriched_frame_result thenE_def
      combine_results_def stub_tech_result_def pe_only_result aaa_result_def
      TECHNICAL_WEIGHT_def FUNDAMENTAL_WEIGHT_def generate_recommendation_def
      round2_def round_half_even_def)

lemma score_stock_BBB: "score_stock stub_env ''BBB'' None None = Inr bbb_result"
  by (simp add: score_stock_def stub_env_def df_missing_def ohlcv_frame_def Let_def
      stub_frame_indicators [unfolded ohlcv_frame_def] enriched_frame_result thenE_def
      combine_results_def stub_tech_result_def analyze_fundamentals_def bbb_result_def
      TECHNICAL_WEIGHT_def FUNDAMENTAL_WEIGHT_def generate_recommendation_def
      round2_def round_half_even_def)

lemma score_stock_BAD: "score_stock stub_env ''BAD'' None None = Inl (KeyError ''rsi'')"
proof -
  have ne: "zero_close_frame \<noteq> []" by (simp add: zero_close_frame_def)
  show ?thesis
    using ne
    by (simp add: score_stock_def stub_env_def df_missing_def Let_def
        zero_close_indicators zero_close_frame_raises thenE_def)
qed

lemma try_score_BAD: "try_score stub_env ''BAD'' = bad_result"
proof -
  have "try_score stub_env ''BAD'' = create_error_result stub_env ''BAD'' (str_exn (KeyError ''rsi''))"
    by (simp add: try_score_def score_stock_BAD)
  then show ?thesis
    by (simp add: create_error_result_def bad_result_def stub_env_def)
qed

lemma stub_portfolio:
  "score_portfolio stub_env [''BAD'', ''BBB'', ''AAA''] = [aaa_result, bbb_result, bad_result]"
proof -
  have l: "portfolio_loop stub_env [''BAD'', ''BBB'', ''AAA''] [] = [bad_result, bbb_result, aaa_result]"
    by (simp add: try_score_def score_stock_BAD score_stock_AAA score_stock_BBB
        try_score_BAD [unfolded try_score_def score_stock_BAD, simplified])
  have o: "overall_score aaa_result = 7545/100" "overall_score bbb_result = 5545/100"
    "overall_score bad_result = 50"
    by (simp_all add: aaa_result_def bbb_result_def bad_result_def)
  show ?thesis
    unfolding score_portfolio_def l by (simp add: sort_descending_def o)
qed

lemma combine_results_scores:
  assumes "combine_results e symb (TechResult tr) fr = Inr r"
  shows "technical_score r = tscore tr \<and> fundamental_score r = fscore fr \<and>
         overall_score r = round2 (tscore tr * TECHNICAL_WEIGHT + fscore fr * FUNDAMENTAL_WEIGHT) \<and>
         recommendation r =
           generate_recommendation (tscore tr * TECHNICAL_WEIGHT + fscore fr * FUNDAMENTAL_WEIGHT)"
  using assms by (auto simp: combine_results_def Let_def)

lemma score_stock_scores:
  assumes "score_stock e symb p f = Inr r"
  shows "overall_score r =
           round2 (technical_score r * TECHNICAL_WEIGHT + fundamental_score r * FUNDAMENTAL_WEIGHT) \<and>
         recommendation r =
           generate_recommendation
             (technical_score r * TECHNICAL_WEIGHT + fundamental_score r * FUNDAMENTAL_WEIGHT)"
proof -
  let ?pd = "if df_missing p then fetch_price_data e symb else p"
  show ?thesis
  proof (cases "df_missing ?pd")
    case True
    then have "r = create_error_result e symb ''No price data available''"
      using assms by (simp add: score_stock_def Let_def)
    then show ?thesis
      using round2_50
      by (simp add: create_error_result_def TECHNICAL_WEIGHT_def FUNDAMENTAL_WEIGHT_def
          generate_recommendation_def)
  next
    case False
    then obtain t fr where c: "combine_results e symb t fr = Inr r"
      using assms by (auto simp: score_stock_def Let_def thenE_def split: sum.splits)
    then obtain tr where t: "t = TechResult tr"
      by (cases t) (auto simp: combine_results_def)
    show ?thesis using combine_results_scores [OF c [unfolded t]] by simp
  qed
qed

lemma combine_70_50:
  "combine_results stub_env ''AAA'' (TechResult score70_result) score50_fundamentals
     = Inr combined_70_50"
  using round2_of_int [of 62]
  by (simp add: combine_results_def Let_def score70_result_def score50_fundamentals_def
      combined_70_50_def TECHNICAL_WEIGHT_def FUNDAMENTAL_WEIGHT_def generate_recommendation_def
      stub_env_def)

lemma portfolio_loop_map:
  "portfolio_loop e symbols results = results @ map (try_score e) symbols"
  by (induction symbols arbitrary: results) auto

lemma sort_descending_sorted:
  "sorted_wrt (\<lambda>a b. overall_score a \<ge> overall_score b) (sort_descending rs)"
proof -
  have "sorted (map (\<lambda>r. - overall_score r) (sort_key (\<lambda>r. - overall_score r) rs))"
    by (rule sorted_sort_key)
  then show ?thesis
    by (simp add: sort_descending_def sorted_map)
qed

lemma try_block_rsi_raises:
  assumes "thenE (getcol d ''Close'') (\<lambda>c. ta_rsi ta c RSI_PERIOD) = Inl ex"
  shows "try_block ta d = (Inl ex, d)"
  using assms by (simp add: try_block_def bindP_def evalP_def)

lemma try_block_macd_raises:
  assumes "thenE (getcol d ''Close'') (\<lambda>c. ta_rsi ta c RSI_PERIOD) = Inr rsi"
    and "thenE (getcol (set_column ''rsi'' rsi d) ''Close'') (ta_macd ta) = Inl ex"
  shows "try_block ta d = (Inl ex, set_column ''rsi'' rsi d)"
  using assms by (simp add: try_block_def bindP_def evalP_def seqP_def assignP_def)

lemma zero_close_rsi:
  "thenE (getcol zero_close_frame ''Close'') (\<lambda>c. ta_rsi stub_ta c RSI_PERIOD)
     = Inl (Exception ''rsi failed'')"
  by (simp add: thenE_def getcol_def zero_close_frame_def ohlcv_row_def stub_ta_def)

lemma ohlcv_rsi:
  "thenE (getcol ohlcv_frame ''Close'') (\<lambda>c. ta_rsi macd_failing_ta c RSI_PERIOD)
     = Inr (Some [Num 25])"
  by (simp add: thenE_def getcol_def ohlcv_frame_def ohlcv_row_def stub_ta_def macd_failing_ta_def)

lemma ohlcv_macd:
  "thenE (getcol (set_column ''rsi'' (Some [Num 25]) ohlcv_frame) ''Close'') (ta_macd macd_failing_ta)
     = Inl (Exception ''macd failed'')"
  by (simp add: thenE_def getcol_def ohlcv_frame_def ohlcv_row_def stub_ta_def macd_failing_ta_def
      enumerate_eq_zip)

lemma contributing_of_Cons:
  "contributing_of ((n, w) # ws) sg =
     (case signals_get sg n of None \<Rightarrow> [] | Some s \<Rightarrow> [(s, w)]) @ contributing_of ws sg"
  by (simp add: contributing_of_def)

lemma contributing_of_filter_notin:
  assumes "k \<notin> fst ` set ws"
  shows "filter (\<lambda>(n, w). n \<noteq> k) ws = ws"
  using assms by (induction ws) auto

lemma sums_remove_weight:
  assumes "distinct (map fst ws)" and "(k, w) \<in> set ws"
  shows "sum_strength_weight (contributing_of ws sg) =
           sum_strength_weight (contributing_of (filter (\<lambda>(n, w). n \<noteq> k) ws) sg)
             + (case signals_get sg k of None \<Rightarrow> 0 | Some s \<Rightarrow> real_of_int (strength s) * w)
         \<and> sum_two_weight (contributing_of ws sg) =
           sum_two_weight (contributing_of (filter (\<lambda>(n, w). n \<noteq> k) ws) sg)
             + (case signals_get sg k of None \<Rightarrow> 0 | Some s \<Rightarrow> 2 * w)"
  using assms
proof (induction ws)
  case Nil
  then show ?case by simp
next
  case (Cons p ws)
  obtain n v where p: "p = (n, v)" by (cases p)
  show ?case
  proof (cases "n = k")
    case True
    have notin: "k \<notin> fst ` set ws" using Cons.prems(1) True by (simp add: p)
    have wv: "w = v"
      using Cons.prems(2) notin True by (auto simp: p image_iff)
    have f: "filter (\<lambda>(n, w). n \<noteq> k) ws = ws"
      using notin by (rule contributing_of_filter_notin)
    show ?thesis
      by (simp add: p True wv f contributing_of_Cons sum_strength_weight_def sum_two_weight_def
          split: option.splits)
  next
    case False
    have mem: "(k, w) \<in> set ws" using Cons.prems(2) False by (auto simp: p)
    have d: "distinct (map fst ws)" using Cons.prems(1) by simp
    have IH: "sum_strength_weight (contributing_of ws sg) =
           sum_strength_weight (contributing_of (filter (\<lambda>(n, w). n \<noteq> k) ws) sg)
             + (case signals_get sg k of None \<Rightarrow> 0 | Some s \<Rightarrow> real_of_int (strength s) * w)
         \<and> sum_two_weight (contributing_of ws sg) =
           sum_two_weight (contributing_of (filter (\<lambda>(n, w). n \<noteq> k) ws) sg)
             + (case signals_get sg k of None \<Rightarrow> 0 | Some s \<Rightarrow> 2 * w)"
      using Cons.IH [OF d mem] .
    have s1: "sum_strength_weight (contributing_of ((n, v) # ws) sg) =
        (case signals_get sg n of None \<Rightarrow> 0 | Some s \<Rightarrow> real_of_int (strength s) * v)
          + sum_strength_weight (contributing_of ws sg)"
      by (simp add: contributing_of_Cons sum_strength_weight_def split: option.splits)
    have s2: "sum_two_weight (contributing_of ((n, v) # ws) sg) =
        (case signals_get sg n of None \<Rightarrow> 0 | Some s \<Rightarrow> 2 * v)
          + sum_two_weight (contributing_of ws sg)"
      by (simp add: contributing_of_Cons sum_two_weight_def split: option.splits)
    have t1: "sum_strength_weight (contributing_of ((n, v) # filter (\<lambda>(n, w). n \<noteq> k) ws) sg) =
        (case signals_get sg n of None \<Rightarrow> 0 | Some s \<Rightarrow> real_of_int (strength s) * v)
          + sum_strength_weight (contributing_of (filter (\<lambda>(n, w). n \<noteq> k) ws) sg)"
      by (simp add: contributing_of_Cons sum_strength_weight_def split: option.splits)
    have t2: "sum_two_weight (contributing_of ((n, v) # filter (\<lambda>(n, w). n \<noteq> k) ws) sg) =
        (case signals_get sg n of None \<Rightarrow> 0 | Some s \<Rightarrow> 2 * v)
          + sum_two_weight (contributing_of (filter (\<lambda>(n, w). n \<noteq> k) ws) sg)"
      by (simp add: contributing_of_Cons sum_two_weight_def split: option.splits)
    have fl: "filter (\<lambda>(n, w). n \<noteq> k) (p # ws) = (n, v) # filter (\<lambda>(n, w). n \<noteq> k) ws"
      using False by (simp add: p)
    show ?thesis
      unfolding fl p using IH s1 s2 t1 t2 False by simp
  qed
qed

lemma weights_distinct: "distinct (map fst weights)"
  by (simp add: weights_def)

lemma score_loop_without_None:
  assumes "(k, w) \<in> set weights" and "signals_get sg k = None"
  shows "score_loop weights sg (0, 0) = score_loop (filter (\<lambda>(n, w). n \<noteq> k) weights) sg (0, 0)"
  using sums_remove_weight [OF weights_distinct assms(1), of sg] assms(2)
  by (simp add: score_loop_sums)

lemma score_loop_with_Some:
  assumes "(k, w) \<in> set weights" and "signals_get sg k = Some s"
  shows "score_loop weights sg (0, 0) =
           (fst (score_loop (filter (\<lambda>(n, w). n \<noteq> k) weights) sg (0, 0))
              + real_of_int (strength s) * w,
            snd (score_loop (filter (\<lambda>(n, w). n \<noteq> k) weights) sg (0, 0)) + 2 * w)"
  using sums_remove_weight [OF weights_distinct assms(1), of sg] assms(2)
  by (simp add: score_loop_sums)

lemma calculate_technical_score_loop:
  "calculate_technical_score sg =
     round2 (if snd (score_loop weights sg (0, 0)) > 0
             then ((fst (score_loop weights sg (0, 0)) + snd (score_loop weights sg (0, 0)))
                     / (2 * snd (score_loop weights sg (0, 0)))) * 100
             else 50)"
  by (simp add: calculate_technical_score_def split: prod.splits)

lemma generate_technical_signals_counted:
  assumes g: "generate_technical_signals d = Inr (TechResult tr)"
  shows "signals_get (tsignals tr) ''rsi_signal'' \<noteq> None \<and>
         signals_get (tsignals tr) ''macd_signal'' \<noteq> None \<and>
         signals_get (tsignals tr) ''ma_signal'' \<noteq> None \<and>
         signals_get (tsignals tr) ''bb_signal'' \<noteq> None \<and>
         signals_get (tsignals tr) ''volume_signal'' \<noteq> None \<and>
         signals_get (tsignals tr) ''trend_signal'' \<noteq> None \<and>
         (signals_get (tsignals tr) ''stoch_signal'' = None \<longleftrightarrow> last d ''stoch_k'' = None) \<and>
         snd (score_loop weights (tsignals tr) (0, 0))
           = (if last d ''stoch_k'' = None then 22 else 24)"
  using generate_technical_signals_result [OF g]
  by (auto simp: signals_get_def weights_def)

lemma generate_technical_signals_score_loop:
  assumes g: "generate_technical_signals d = Inr (TechResult tr)"
  shows "tscore tr =
           round2 (((fst (score_loop weights (tsignals tr) (0, 0))
                      + snd (score_loop weights (tsignals tr) (0, 0)))
                     / (2 * snd (score_loop weights (tsignals tr) (0, 0)))) * 100)"
proof -
  have "tscore tr = calculate_technical_score (tsignals tr)"
    using generate_technical_signals_result [OF g] by blast
  moreover have "snd (score_loop weights (tsignals tr) (0, 0)) > 0"
    using generate_technical_signals_counted [OF g] by (simp split: if_splits)
  ultimately show ?thesis by (simp add: calculate_technical_score_loop)
qed

lemma generate_technical_signals_missing:
  assumes g: "generate_technical_signals d = Inr (TechResult tr)"
  shows "(last d ''rsi'' = Some NaN \<longrightarrow>
            (\<exists>s. signals_get (tsignals tr) ''rsi_signal'' = Some s \<and> strength s = 0)) \<and>
         (isna (last d ''macd'') \<or> isna (last d ''macd_signal'') \<longrightarrow>
            (\<exists>s. signals_get (tsignals tr) ''macd_signal'' = Some s \<and> strength s = 0)) \<and>
         (last d ''sma_20'' = Some NaN \<or> last d ''sma_50'' = Some NaN \<or>
          last d ''sma_200'' = Some NaN \<longrightarrow>
            (\<exists>s. signals_get (tsignals tr) ''ma_signal'' = Some s \<and> strength s = 0)) \<and>
         (isna (last d ''bb_upper'') \<or> isna (last d ''bb_lower'') \<longrightarrow>
            (\<exists>s. signals_get (tsignals tr) ''bb_signal'' = Some s \<and> strength s = 0)) \<and>
         (isna (last d ''volume_sma_20'') \<longrightarrow>
            (\<exists>s. signals_get (tsignals tr) ''volume_signal'' = Some s \<and> strength s = 0)) \<and>
         (length d < 20 \<longrightarrow>
            (\<exists>s. signals_get (tsignals tr) ''trend_signal'' = Some s \<and> strength s = 0)) \<and>
         (last d ''stoch_k'' \<noteq> None \<and> (isna (last d ''stoch_k'') \<or> isna (last d ''stoch_d'')) \<longrightarrow>
            (\<exists>s. signals_get (tsignals tr) ''stoch_signal'' = Some s \<and> strength s = 0))"
proof -
  obtain rsi ma bb vol trd where
    ma: "analyze_moving_averages (last d) = Inr ma" and
    bb: "analyze_bollinger_bands (last d) = Inr bb" and
    vol: "analyze_volume (last d) = Inr vol" and
    trd: "analyze_trend d 20 = Inr trd" and
    rsi: "getitem (last d) ''rsi'' = Inr rsi" and
    sg: "tsignals tr =
             [(''rsi_signal'', Some (analyze_rsi rsi)),
              (''macd_signal'',
                 Some (analyze_macd (last d) (if length d > 1 then d ! (length d - 2) else last d))),
              (''ma_signal'', Some ma), (''bb_signal'', Some bb), (''volume_signal'', Some vol),
              (''trend_signal'', Some trd),
              (''stoch_signal'',
                 if last d ''stoch_k'' \<noteq> None then Some (analyze_stochastic (last d)) else None)]"
    using generate_technical_signals_result [OF g] by blast
  have a: "last d ''rsi'' = Some NaN \<longrightarrow> strength (analyze_rsi rsi) = 0"
    using rsi by (auto simp: getitem_def analyze_rsi_def split: option.splits)
  have b: "isna (last d ''macd'') \<or> isna (last d ''macd_signal'') \<longrightarrow>
      strength (analyze_macd (last d) (if length d > 1 then d ! (length d - 2) else last d)) = 0"
    by (simp add: analyze_macd_def)
  have c: "last d ''sma_20'' = Some NaN \<or> last d ''sma_50'' = Some NaN \<or>
          last d ''sma_200'' = Some NaN \<longrightarrow> strength ma = 0"
    using ma
    by (auto simp: analyze_moving_averages_def thenE_def getitem_def
        split: option.splits sum.splits if_splits)
  have e: "isna (last d ''bb_upper'') \<or> isna (last d ''bb_lower'') \<longrightarrow> strength bb = 0"
    using bb
    by (auto simp: analyze_bollinger_bands_def thenE_def getitem_def
        split: option.splits sum.splits if_splits)
  have f: "isna (last d ''volume_sma_20'') \<longrightarrow> strength vol = 0"
    using vol
    by (auto simp: analyze_volume_def thenE_def getitem_def
        split: option.splits sum.splits if_splits)
  have h: "length d < 20 \<longrightarrow> strength trd = 0"
    using trd by (auto simp: analyze_trend_def)
  have i: "isna (last d ''stoch_k'') \<or> isna (last d ''stoch_d'') \<longrightarrow>
      strength (analyze_stochastic (last d)) = 0"
    by (simp add: analyze_stochastic_def)
  show ?thesis
    using a b c e f h i by (auto simp: sg signals_get_def)
qed

lemma missing_rsi_loop: "score_loop weights missing_rsi_signals (0, 0) = (5/2, 22)"
  by (simp add: weights_def signals_get_def missing_rsi_signals_def)

lemma missing_rsi_loop_without_stoch:
  "score_loop (filter (\<lambda>(n, w). n \<noteq> ''stoch_signal'') weights) missing_rsi_signals (0, 0)
     = (5/2, 22)"
  by (simp add: weights_def signals_get_def missing_rsi_signals_def)

lemma missing_rsi_loop_without_rsi:
  "score_loop (filter (\<lambda>(n, w). n \<noteq> ''rsi_signal'') weights) missing_rsi_signals (0, 0)
     = (5/2, 18)"
  by (simp add: weights_def signals_get_def missing_rsi_signals_def)

lemma run_steps_Cons: "run_steps (m # ms) = seqP m (run_steps ms)"
  by (rule ext) (simp add: seqP_def bindP_def split: prod.splits sum.splits)

lemma run_steps_Nil: "run_steps [] = skipP"
  by (rule ext) (simp add: skipP_def)

lemma seqP_bindP: "seqP (bindP m f) n = bindP m (\<lambda>x. seqP (f x) n)"
  by (rule ext) (simp add: seqP_def bindP_def split: prod.splits sum.splits)

lemma seqP_skipP: "seqP m skipP = m"
  by (rule ext) (simp add: seqP_def bindP_def skipP_def split: prod.splits sum.splits)

lemma try_block_steps: "try_block ta = run_steps (indicator_steps ta)"
  by (simp add: try_block_def indicator_steps_def run_steps_Cons run_steps_Nil step_column_def
      step_rsi_def step_macd_def step_sma_def step_bb_def step_volume_sma_def step_stoch_def
      step_atr_def step_obv_def seqP_bindP seqP_skipP)

lemma run_steps_raise_at:
  assumes "i < length ss" and "run_steps (take i ss) s = (Inr (), si)"
    and "(ss ! i) si = (Inl ex, si')"
  shows "run_steps ss s = (Inl ex, si')"
  using assms
proof (induction ss arbitrary: i s)
  case Nil
  then show ?case by simp
next
  case (Cons m ms)
  show ?case
  proof (cases i)
    case 0
    then show ?thesis using Cons.prems by simp
  next
    case (Suc j)
    obtain r s1 where m: "m s = (r, s1)" by (cases "m s")
    show ?thesis
    proof (cases r)
      case (Inl e)
      then show ?thesis using Cons.prems(2) m Suc by simp
    next
      case (Inr u)
      have a: "run_steps (take j ms) s1 = (Inr (), si)"
        using Cons.prems(2) m Suc Inr by simp
      have b: "j < length ms" using Cons.prems(1) Suc by simp
      have c: "(ms ! j) si = (Inl ex, si')" using Cons.prems(3) Suc by simp
      have "run_steps ms s1 = (Inl ex, si')" using b a c by (rule Cons.IH)
      then show ?thesis using m Inr by simp
    qed
  qed
qed

lemma run_steps_raised:
  assumes "run_steps ss s = (Inl ex, s')"
  shows "\<exists>i si. i < length ss \<and> run_steps (take i ss) s = (Inr (), si) \<and>
                 (ss ! i) si = (Inl ex, s')"
  using assms
proof (induction ss arbitrary: s)
  case Nil
  then show ?case by simp
next
  case (Cons m ms)
  obtain r s1 where m: "m s = (r, s1)" by (cases "m s")
  show ?case
  proof (cases r)
    case (Inl e)
    then have "e = ex" "s1 = s'" using Cons.prems m by simp_all
    then have "0 < length (m # ms) \<and> run_steps (take 0 (m # ms)) s = (Inr (), s) \<and>
        ((m # ms) ! 0) s = (Inl ex, s')"
      using m Inl by simp
    then show ?thesis by blast
  next
    case (Inr u)
    then have "run_steps ms s1 = (Inl ex, s')" using Cons.prems m by simp
    then obtain j sj where j: "j < length ms" "run_steps (take j ms) s1 = (Inr (), sj)"
        "(ms ! j) sj = (Inl ex, s')"
      using Cons.IH by blast
    have "Suc j < length (m # ms) \<and> run_steps (take (Suc j) (m # ms)) s = (Inr (), sj) \<and>
        ((m # ms) ! Suc j) sj = (Inl ex, s')"
      using j m Inr by simp
    then show ?thesis by blast
  qed
qed

lemma assign_from_result:
  "assign_from name f key s =
     (case map_of f key of None \<Rightarrow> (Inl (KeyError key), s)
      | Some c \<Rightarrow> (Inr (), set_column name (Some c) s))"
  by (simp add: assign_from_def bindP_def evalP_def assignP_def frame_getitem_def
      split: option.splits)

lemma bb_block_never_raises: "fst (bb_block b s) = Inr ()"
  by (simp add: bb_block_def except_KeyError_def seqP_def bindP_def assign_from_result
      assignP_def skipP_def split: option.splits)

lemma step_column_raises:
  assumes "step_column name compute s = (Inl ex, s')"
  shows "s' = s"
  using assms
  by (auto simp: step_column_def bindP_def evalP_def assignP_def split: sum.splits)

lemma step_bb_raises:
  assumes "step_bb ta s = (Inl ex, s')"
  shows "s' = s"
proof -
  have nr: "\<And>b. bb_block b s \<noteq> (Inl ex, s')"
    using bb_block_never_raises by (metis fst_conv sum.distinct(1))
  show ?thesis
    using assms nr
    by (auto simp: step_bb_def bindP_def evalP_def skipP_def split: sum.splits option.splits if_splits)
qed

lemma calculate_all_indicators_steps:
  "d \<noteq> [] \<Longrightarrow> calculate_all_indicators ta (Some d) = Some (snd (run_steps (indicator_steps ta) d))"
  by (simp add: calculate_all_indicators_def try_block_steps)

lemmas step_defs = indicator_steps_def step_column_def step_rsi_def step_macd_def step_sma_def
  step_bb_def step_volume_sma_def step_stoch_def step_atr_def step_obv_def

lemma zero_close_first_step:
  "(indicator_steps stub_ta ! 0) zero_close_frame
     = (Inl (Exception ''rsi failed''), zero_close_frame)"
  by (simp add: step_defs prog_defs stub_ta_def zero_close_frame_def ohlcv_row_def)

lemma bb_failing_prefix:
  "run_steps (take 5 (indicator_steps bb_failing_ta)) ohlcv_frame = (Inr (), [before_bb_row])"
  by (simp add: step_defs prog_defs bb_failing_ta_def stub_ta_def ohlcv_frame_def ohlcv_row_def
      before_bb_row_def RSI_PERIOD_def SMA_SHORT_def SMA_MEDIUM_def SMA_LONG_def enumerate_eq_zip)

lemma bb_failing_step:
  "(indicator_steps bb_failing_ta ! 5) [before_bb_row]
     = (Inl (Exception ''bbands failed''), [before_bb_row])"
  by (simp add: step_defs prog_defs bb_failing_ta_def stub_ta_def ohlcv_row_def before_bb_row_def)

lemma misnamed_bb_run:
  "run_steps (indicator_steps misnamed_bb_ta) ohlcv_frame = (Inr (), [enriched_row])"
  by (simp add: step_defs prog_defs bb_block_def misnamed_bb_ta_def stub_ta_def ohlcv_frame_def
      ohlcv_row_def enriched_row_def frame_empty_def frame_getitem_def
      RSI_PERIOD_def SMA_SHORT_def SMA_MEDIUM_def SMA_LONG_def enumerate_eq_zip)

section \<open>The technical score\<close>

text \<open>
  C1, as amended. For every dictionary of sub-signals the technical score is
  ((sum of strength times weight + sum of 2 times weight) / (2 times the sum of
  2 times weight)) times 100 over the contributing sub-signals, with the weights of
  \<open>weights\<close>, rounded to two decimals, and 50 when none contributes: the divisor is
  twice the sum of the doubled weights. When every contributing strength is -2 the
  score is exactly 0, and when every one is +2 it is exactly 100.
\<close>

theorem technical_score_formula:
  "calculate_technical_score sg =
     round2 (if contributing sg = [] then 50
             else ((sum_strength_weight (contributing sg) + sum_two_weight (contributing sg))
                     / (2 * sum_two_weight (contributing sg))) * 100) \<and>
   (contributing lo \<noteq> [] \<and> (\<forall>(s, w) \<in> set (contributing lo). strength s = -2)
      \<longrightarrow> calculate_technical_score lo = 0) \<and>
   (contributing hi \<noteq> [] \<and> (\<forall>(s, w) \<in> set (contributing hi). strength s = 2)
      \<longrightarrow> calculate_technical_score hi = 100)"
proof -
  have a: "calculate_technical_score sg =
     round2 (if contributing sg = [] then 50
             else ((sum_strength_weight (contributing sg) + sum_two_weight (contributing sg))
                     / (2 * sum_two_weight (contributing sg))) * 100)"
  proof (cases "contributing sg = []")
    case True
    then show ?thesis
      by (simp add: calculate_technical_score_sums sum_two_weight_def)
  next
    case False
    then show ?thesis
      using contributing_sum_pos [OF False] by (simp add: calculate_technical_score_sums)
  qed
  have b: "calculate_technical_score lo = 0"
    if ne: "contributing lo \<noteq> []" and all: "\<forall>(s, w) \<in> set (contributing lo). strength s = -2"
  proof -
    have "sum_strength_weight (contributing lo) = real_of_int (-2) * sum_weight (contributing lo)"
      using all by (intro sum_strength_all) auto
    then have "sum_strength_weight (contributing lo) + sum_two_weight (contributing lo) = 0"
      by (simp add: sum_two_weight_eq)
    then show ?thesis
      using contributing_sum_pos [OF ne] round2_of_int [of 0]
      by (simp add: calculate_technical_score_sums)
  qed
  have c: "calculate_technical_score hi = 100"
    if ne: "contributing hi \<noteq> []" and all: "\<forall>(s, w) \<in> set (contributing hi). strength s = 2"
  proof -
    have "sum_strength_weight (contributing hi) = real_of_int 2 * sum_weight (contributing hi)"
      using all by (intro sum_strength_all) auto
    then have "sum_strength_weight (contributing hi) = sum_two_weight (contributing hi)"
      by (simp add: sum_two_weight_eq)
    then show ?thesis
      using contributing_sum_pos [OF ne] round2_of_int [of 100]
      by (simp add: calculate_technical_score_sums)
  qed
  show ?thesis using a b c by blast
qed

theorem technical_score_formula_witness:
  "calculate_technical_score missing_rsi_signals = 5568/100 \<and>
   contributing all_bearish_signals \<noteq> [] \<and> calculate_technical_score all_bearish_signals = 0 \<and>
   contributing all_bullish_signals \<noteq> [] \<and> calculate_technical_score all_bullish_signals = 100"
  using technical_score_formula [of missing_rsi_signals all_bearish_signals all_bullish_signals]
    missing_rsi_signals_score
  by (simp add: contributing_all_bearish contributing_all_bullish)

text \<open>
  The formula with the divisor the specification writes, twice the sum of the weights,
  is not the score: on the signals of a frame whose only finding is an oversold RSI the
  code gives 59.09 and that formula 118.18, and where every strength is +2 the code gives
  100 and that formula 200. With the divisor of the code the quotient is 59.0909..., which
  the code rounds to 59.09.
\<close>

theorem technical_score_formula_counterexample:
  "generate_technical_signals rsi_oversold_frame = Inr (TechResult rsi_oversold_result) \<and>
   tsignals rsi_oversold_result = rsi_oversold_signals \<and>
   calculate_technical_score rsi_oversold_signals = 5909/100 \<and>
   spec_technical_score rsi_oversold_signals = 1300/11 \<and>
   calculate_technical_score rsi_oversold_signals \<noteq> spec_technical_score rsi_oversold_signals \<and>
   ((sum_strength_weight (contributing rsi_oversold_signals)
       + sum_two_weight (contributing rsi_oversold_signals))
      / (2 * sum_two_weight (contributing rsi_oversold_signals))) * 100 = 650/11 \<and>
   calculate_technical_score all_bullish_signals = 100 \<and>
   spec_technical_score all_bullish_signals = 200"
proof -
  have a: "spec_technical_score rsi_oversold_signals = 1300/11"
    by (simp add: spec_technical_score_def contributing_rsi_oversold sum_strength_weight_def
        sum_two_weight_def sum_weight_def)
  have b: "spec_technical_score all_bullish_signals = 200"
    by (simp add: spec_technical_score_def contributing_all_bullish sum_strength_weight_def
        sum_two_weight_def sum_weight_def)
  have c: "calculate_technical_score all_bullish_signals = 100"
    by (simp add: calculate_technical_score_def all_bullish_signals_def weights_def signals_get_def
      round2_def round_half_even_def Let_def)
  have d: "((sum_strength_weight (contributing rsi_oversold_signals)
       + sum_two_weight (contributing rsi_oversold_signals))
      / (2 * sum_two_weight (contributing rsi_oversold_signals))) * 100 = 650/11"
    by (simp add: contributing_rsi_oversold sum_strength_weight_def sum_two_weight_def)
  show ?thesis
    using a b c d rsi_oversold_frame_result rsi_oversold_signals_score
    by (simp add: rsi_oversold_result_def)
qed

section \<open>Ranges of strengths and scores\<close>

text \<open>
  C2. Every signal of a technical result and of a fundamental result has its strength in
  [-2, 2]; the technical score and the fundamental score lie in [0, 100]; and a score
  to which no signal contributed is exactly 50.
\<close>

theorem strengths_and_scores_in_range:
  "(generate_technical_signals d = Inr (TechResult tr) \<longrightarrow>
      (\<forall>n s. (n, Some s) \<in> set (tsignals tr) \<longrightarrow> -2 \<le> strength s \<and> strength s \<le> 2) \<and>
      0 \<le> tscore tr \<and> tscore tr \<le> 100) \<and>
   (\<forall>n s. (n, s) \<in> set (fsignals (analyze_fundamentals fd)) \<longrightarrow>
      -2 \<le> strength s \<and> strength s \<le> 2) \<and>
   0 \<le> fscore (analyze_fundamentals fd) \<and> fscore (analyze_fundamentals fd) \<le> 100 \<and>
   (contributing sg = [] \<longrightarrow> calculate_technical_score sg = 50) \<and>
   (fsignals (analyze_fundamentals fd0) = [] \<longrightarrow> fscore (analyze_fundamentals fd0) = 50) \<and>
   calculate_fundamental_score [] = 50"
proof -
  have t: "generate_technical_signals d = Inr (TechResult tr) \<longrightarrow>
      (\<forall>n s. (n, Some s) \<in> set (tsignals tr) \<longrightarrow> -2 \<le> strength s \<and> strength s \<le> 2) \<and>
      0 \<le> tscore tr \<and> tscore tr \<le> 100"
    using generate_technical_signals_strengths generate_technical_signals_score by blast
  have f: "\<forall>n s. (n, s) \<in> set (fsignals (analyze_fundamentals fd)) \<longrightarrow>
      -2 \<le> strength s \<and> strength s \<le> 2"
    using analyze_fundamentals_strengths by blast
  have c: "contributing sg = [] \<longrightarrow> calculate_technical_score sg = 50"
    by (simp add: calculate_technical_score_sums sum_two_weight_def round2_50)
  have e: "fsignals (analyze_fundamentals fd0) = [] \<longrightarrow> fscore (analyze_fundamentals fd0) = 50"
    by (simp add: analyze_fundamentals_def Let_def calculate_fundamental_score_def)
  have z: "calculate_fundamental_score [] = 50"
    by (simp add: calculate_fundamental_score_def)
  show ?thesis using t f c e z analyze_fundamentals_score [of fd] by blast
qed

theorem strengths_and_scores_in_range_witness:
  "generate_technical_signals missing_rsi_frame = Inr (TechResult missing_rsi_result) \<and>
   (''macd_signal'', Some \<lparr>signal = ''bullish'', strength = 1, extras = [(''crossover'', PyNone)]\<rparr>)
      \<in> set (tsignals missing_rsi_result) \<and>
   0 \<le> tscore missing_rsi_result \<and> tscore missing_rsi_result \<le> 100 \<and>
   (''pe_ratio'', fsig ''bullish'' 2 (Some 10) ''undervalued'')
      \<in> set (fsignals (analyze_fundamentals pe_only_metrics)) \<and>
   strength (fsig ''bullish'' 2 (Some 10) ''undervalued'') \<le> 2 \<and>
   0 \<le> fscore (analyze_fundamentals pe_only_metrics) \<and>
   fscore (analyze_fundamentals pe_only_metrics) \<le> 100 \<and>
   contributing [] = [] \<and> calculate_technical_score [] = 50 \<and>
   fsignals (analyze_fundamentals []) = [] \<and> fscore (analyze_fundamentals []) = 50"
proof -
  have m: "(''macd_signal'', Some \<lparr>signal = ''bullish'', strength = 1, extras = [(''crossover'', PyNone)]\<rparr>)
      \<in> set (tsignals missing_rsi_result)"
    by (simp add: missing_rsi_result_def missing_rsi_signals_def)
  have p: "(''pe_ratio'', fsig ''bullish'' 2 (Some 10) ''undervalued'')
      \<in> set (fsignals (analyze_fundamentals pe_only_metrics))"
    by (simp add: pe_only_result)
  have e: "fsignals (analyze_fundamentals []) = []"
    by (simp add: analyze_fundamentals_def)
  show ?thesis
    using strengths_and_scores_in_range
      [of missing_rsi_frame missing_rsi_result pe_only_metrics "[]" "[]"]
      missing_rsi_frame_result contributing_Nil m p e
    by simp
qed

section \<open>The overall score\<close>

text \<open>
  C3, as amended. The overall score of a result is technical score times technical
  weight plus fundamental score times fundamental weight, rounded to two decimals, and
  the recommendation is the band of that sum; with technical score 70, fundamental
  score 50 and the weights 0.6 and 0.4 the overall score is 62.00 and the
  recommendation is HOLD.
\<close>

theorem overall_score_combination:
  "(score_stock e symb p f = Inr r \<longrightarrow>
      overall_score r =
        round2 (technical_score r * TECHNICAL_WEIGHT + fundamental_score r * FUNDAMENTAL_WEIGHT) \<and>
      recommendation r =
        generate_recommendation
          (technical_score r * TECHNICAL_WEIGHT + fundamental_score r * FUNDAMENTAL_WEIGHT)) \<and>
   (combine_results e' symb' (TechResult tr) fr = Inr r' \<and> tscore tr = 70 \<and> fscore fr = 50 \<longrightarrow>
      technical_score r' = 70 \<and> fundamental_score r' = 50 \<and>
      overall_score r' = 62 \<and> recommendation r' = ''HOLD'') \<and>
   TECHNICAL_WEIGHT = 6/10 \<and> FUNDAMENTAL_WEIGHT = 4/10"
proof -
  have a: "score_stock e symb p f = Inr r \<longrightarrow>
      overall_score r =
        round2 (technical_score r * TECHNICAL_WEIGHT + fundamental_score r * FUNDAMENTAL_WEIGHT) \<and>
      recommendation r =
        generate_recommendation
          (technical_score r * TECHNICAL_WEIGHT + fundamental_score r * FUNDAMENTAL_WEIGHT)"
    using score_stock_scores by blast
  have b: "technical_score r' = 70 \<and> fundamental_score r' = 50 \<and>
      overall_score r' = 62 \<and> recommendation r' = ''HOLD''"
    if c: "combine_results e' symb' (TechResult tr) fr = Inr r'" and "tscore tr = 70" "fscore fr = 50"
    using combine_results_scores [OF c] that(2,3) round2_of_int [of 62]
    by (simp add: TECHNICAL_WEIGHT_def FUNDAMENTAL_WEIGHT_def generate_recommendation_def)
  show ?thesis using a b by (simp add: TECHNICAL_WEIGHT_def FUNDAMENTAL_WEIGHT_def)
qed

theorem overall_score_combination_witness:
  "score_stock stub_env ''AAA'' None None = Inr aaa_result \<and>
   overall_score aaa_result = 7545/100 \<and> recommendation aaa_result = ''BUY'' \<and>
   combine_results stub_env ''AAA'' (TechResult score70_result) score50_fundamentals
     = Inr combined_70_50 \<and>
   tscore score70_result = 70 \<and> fscore score50_fundamentals = 50 \<and>
   overall_score combined_70_50 = 62 \<and> recommendation combined_70_50 = ''HOLD''"
  using overall_score_combination [of stub_env "''AAA''" None None aaa_result
      stub_env "''AAA''" score70_result score50_fundamentals combined_70_50]
    score_stock_AAA combine_70_50
  by (simp add: aaa_result_def score70_result_def score50_fundamentals_def)

text \<open>
  With the scores 70 and 50 the recommendation is not BUY: 62 lies in the HOLD band,
  which reaches up to 65.
\<close>

theorem overall_score_combination_counterexample:
  "combine_results stub_env ''AAA'' (TechResult score70_result) score50_fundamentals
     = Inr combined_70_50 \<and>
   tscore score70_result = 70 \<and> fscore score50_fundamentals = 50 \<and>
   overall_score combined_70_50 = 62 \<and> recommendation combined_70_50 = ''HOLD'' \<and>
   recommendation combined_70_50 \<noteq> ''BUY'' \<and> generate_recommendation 62 \<noteq> ''BUY''"
  using combine_70_50
  by (simp add: combined_70_50_def score70_result_def score50_fundamentals_def
      generate_recommendation_def)

section \<open>Recommendation bands\<close>

text \<open>
  C4. For every score the recommendation is STRONG BUY exactly from 80, BUY exactly on
  [65, 80), HOLD exactly on [45, 65), SELL exactly on [30, 45) and STRONG SELL exactly
  below 30; 80 gives STRONG BUY and 79.99 gives BUY.
\<close>

theorem recommendation_bands:
  "(generate_recommendation s = ''STRONG BUY'' \<longleftrightarrow> s \<ge> 80) \<and>
   (generate_recommendation s = ''BUY'' \<longleftrightarrow> 65 \<le> s \<and> s < 80) \<and>
   (generate_recommendation s = ''HOLD'' \<longleftrightarrow> 45 \<le> s \<and> s < 65) \<and>
   (generate_recommendation s = ''SELL'' \<longleftrightarrow> 30 \<le> s \<and> s < 45) \<and>
   (generate_recommendation s = ''STRONG SELL'' \<longleftrightarrow> s < 30) \<and>
   generate_recommendation 80 = ''STRONG BUY'' \<and>
   generate_recommendation (7999/100) = ''BUY''"
  by (simp add: generate_recommendation_def)

theorem recommendation_bands_witness:
  "generate_recommendation (7999/100) = ''BUY'' \<and> generate_recommendation 80 = ''STRONG BUY''"
  using recommendation_bands [of "7999/100"] by simp

section \<open>Absent sub-signals\<close>

text \<open>
  C5, as amended. A sub-signal that is None is excluded from the numerator and from the
  denominator of the technical score: the loop gives the same total strength and the
  same maximum as the loop without that entry of the weights, and the score is the
  score of the remaining sub-signals alone. A sub-signal that is present adds its
  strength times its weight to the total and twice its weight to the maximum, whatever
  its strength. In a technical result only the stochastic signal can be None, exactly
  when the frame has no \<^verbatim>\<open>stoch_k\<close> column: the maximum is then 22, twice the sum
  of the other six weights, and 24 otherwise. A sub-indicator whose value is missing is
  not excluded: its signal is present with strength 0, so it adds nothing to the total
  and twice its weight to the maximum.
\<close>

theorem absent_signal_excluded:
  "((k, w) \<in> set weights \<and> signals_get sg k = None \<longrightarrow>
      score_loop weights sg (0, 0)
        = score_loop (filter (\<lambda>(n, w). n \<noteq> k) weights) sg (0, 0) \<and>
      calculate_technical_score sg
        = calculate_technical_score (filter (\<lambda>(n, s). n \<noteq> k) sg)) \<and>
   ((k', w') \<in> set weights \<and> signals_get sg' k' = Some s' \<longrightarrow>
      score_loop weights sg' (0, 0)
        = (fst (score_loop (filter (\<lambda>(n, w). n \<noteq> k') weights) sg' (0, 0))
             + real_of_int (strength s') * w',
           snd (score_loop (filter (\<lambda>(n, w). n \<noteq> k') weights) sg' (0, 0)) + 2 * w')) \<and>
   (generate_technical_signals d = Inr (TechResult tr) \<longrightarrow>
      signals_get (tsignals tr) ''rsi_signal'' \<noteq> None \<and>
      signals_get (tsignals tr) ''macd_signal'' \<noteq> None \<and>
      signals_get (tsignals tr) ''ma_signal'' \<noteq> None \<and>
      signals_get (tsignals tr) ''bb_signal'' \<noteq> None \<and>
      signals_get (tsignals tr) ''volume_signal'' \<noteq> None \<and>
      signals_get (tsignals tr) ''trend_signal'' \<noteq> None \<and>
      (signals_get (tsignals tr) ''stoch_signal'' = None \<longleftrightarrow> last d ''stoch_k'' = None) \<and>
      snd (score_loop weights (tsignals tr) (0, 0))
        = (if last d ''stoch_k'' = None then 22 else 24) \<and>
      tscore tr =
        round2 (((fst (score_loop weights (tsignals tr) (0, 0))
                   + snd (score_loop weights (tsignals tr) (0, 0)))
                  / (2 * snd (score_loop weights (tsignals tr) (0, 0)))) * 100) \<and>
      (last d ''stoch_k'' = None \<longrightarrow>
         tscore tr =
           calculate_technical_score
             (filter (\<lambda>(n, s). n \<noteq> ''stoch_signal'') (tsignals tr))) \<and>
      (last d ''rsi'' = Some NaN \<longrightarrow>
         (\<exists>s. signals_get (tsignals tr) ''rsi_signal'' = Some s \<and> strength s = 0)) \<and>
      (isna (last d ''macd'') \<or> isna (last d ''macd_signal'') \<longrightarrow>
         (\<exists>s. signals_get (tsignals tr) ''macd_signal'' = Some s \<and> strength s = 0)) \<and>
      (last d ''sma_20'' = Some NaN \<or> last d ''sma_50'' = Some NaN \<or>
       last d ''sma_200'' = Some NaN \<longrightarrow>
         (\<exists>s. signals_get (tsignals tr) ''ma_signal'' = Some s \<and> strength s = 0)) \<and>
      (isna (last d ''bb_upper'') \<or> isna (last d ''bb_lower'') \<longrightarrow>
         (\<exists>s. signals_get (tsignals tr) ''bb_signal'' = Some s \<and> strength s = 0)) \<and>
      (isna (last d ''volume_sma_20'') \<longrightarrow>
         (\<exists>s. signals_get (tsignals tr) ''volume_signal'' = Some s \<and> strength s = 0)) \<and>
      (length d < 20 \<longrightarrow>
         (\<exists>s. signals_get (tsignals tr) ''trend_signal'' = Some s \<and> strength s = 0)) \<and>
      (last d ''stoch_k'' \<noteq> None \<and> (isna (last d ''stoch_k'') \<or> isna (last d ''stoch_d'')) \<longrightarrow>
         (\<exists>s. signals_get (tsignals tr) ''stoch_signal'' = Some s \<and> strength s = 0)))"
proof -
  have a: "score_loop weights sg (0, 0)
        = score_loop (filter (\<lambda>(n, w). n \<noteq> k) weights) sg (0, 0) \<and>
      calculate_technical_score sg
        = calculate_technical_score (filter (\<lambda>(n, s). n \<noteq> k) sg)"
    if "(k, w) \<in> set weights" and "signals_get sg k = None"
    using score_loop_without_None [OF that] calculate_technical_score_drop_None [OF that(2)]
    by simp
  have b: "score_loop weights sg' (0, 0)
        = (fst (score_loop (filter (\<lambda>(n, w). n \<noteq> k') weights) sg' (0, 0))
             + real_of_int (strength s') * w',
           snd (score_loop (filter (\<lambda>(n, w). n \<noteq> k') weights) sg' (0, 0)) + 2 * w')"
    if "(k', w') \<in> set weights" and "signals_get sg' k' = Some s'"
    using score_loop_with_Some [OF that] .
  have c: "signals_get (tsignals tr) ''rsi_signal'' \<noteq> None \<and>
      signals_get (tsignals tr) ''macd_signal'' \<noteq> None \<and>
      signals_get (tsignals tr) ''ma_signal'' \<noteq> None \<and>
      signals_get (tsignals tr) ''bb_signal'' \<noteq> None \<and>
      signals_get (tsignals tr) ''volume_signal'' \<noteq> None \<and>
      signals_get (tsignals tr) ''trend_signal'' \<noteq> None \<and>
      (signals_get (tsignals tr) ''stoch_signal'' = None \<longleftrightarrow> last d ''stoch_k'' = None) \<and>
      snd (score_loop weights (tsignals tr) (0, 0))
        = (if last d ''stoch_k'' = None then 22 else 24) \<and>
      tscore tr =
        round2 (((fst (score_loop weights (tsignals tr) (0, 0))
                   + snd (score_loop weights (tsignals tr) (0, 0)))
                  / (2 * snd (score_loop weights (tsignals tr) (0, 0)))) * 100) \<and>
      (last d ''stoch_k'' = None \<longrightarrow>
         tscore tr =
           calculate_technical_score
             (filter (\<lambda>(n, s). n \<noteq> ''stoch_signal'') (tsignals tr))) \<and>
      (last d ''rsi'' = Some NaN \<longrightarrow>
         (\<exists>s. signals_get (tsignals tr) ''rsi_signal'' = Some s \<and> strength s = 0)) \<and>
      (isna (last d ''macd'') \<or> isna (last d ''macd_signal'') \<longrightarrow>
         (\<exists>s. signals_get (tsignals tr) ''macd_signal'' = Some s \<and> strength s = 0)) \<and>
      (last d ''sma_20'' = Some NaN \<or> last d ''sma_50'' = Some NaN \<or>
       last d ''sma_200'' = Some NaN \<longrightarrow>
         (\<exists>s. signals_get (tsignals tr) ''ma_signal'' = Some s \<and> strength s = 0)) \<and>
      (isna (last d ''bb_upper'') \<or> isna (last d ''bb_lower'') \<longrightarrow>
         (\<exists>s. signals_get (tsignals tr) ''bb_signal'' = Some s \<and> strength s = 0)) \<and>
      (isna (last d ''volume_sma_20'') \<longrightarrow>
         (\<exists>s. signals_get (tsignals tr) ''volume_signal'' = Some s \<and> strength s = 0)) \<and>
      (length d < 20 \<longrightarrow>
         (\<exists>s. signals_get (tsignals tr) ''trend_signal'' = Some s \<and> strength s = 0)) \<and>
      (last d ''stoch_k'' \<noteq> None \<and> (isna (last d ''stoch_k'') \<or> isna (last d ''stoch_d'')) \<longrightarrow>
         (\<exists>s. signals_get (tsignals tr) ''stoch_signal'' = Some s \<and> strength s = 0))"
    if g: "generate_technical_signals d = Inr (TechResult tr)"
  proof -
    have ts: "tscore tr = calculate_technical_score (tsignals tr)"
      using generate_technical_signals_result [OF g] by blast
    have st: "last d ''stoch_k'' = None \<longrightarrow>
         tscore tr =
           calculate_technical_score
             (filter (\<lambda>(n, s). n \<noteq> ''stoch_signal'') (tsignals tr))"
      using generate_technical_signals_counted [OF g] ts
        calculate_technical_score_drop_None [of "tsignals tr" "''stoch_signal''"]
      by simp
    show ?thesis
      using generate_technical_signals_counted [OF g] generate_technical_signals_score_loop [OF g]
        generate_technical_signals_missing [OF g] st
      by blast
  qed
  show ?thesis using a b c by blast
qed

theorem absent_signal_excluded_witness:
  "(''stoch_signal'', 1) \<in> set weights \<and>
   signals_get missing_rsi_signals ''stoch_signal'' = None \<and>
   score_loop weights missing_rsi_signals (0, 0) = (5/2, 22) \<and>
   score_loop (filter (\<lambda>(n, w). n \<noteq> ''stoch_signal'') weights) missing_rsi_signals (0, 0)
     = (5/2, 22) \<and>
   (''rsi_signal'', 2) \<in> set weights \<and>
   signals_get missing_rsi_signals ''rsi_signal''
     = Some \<lparr>signal = ''neutral'', strength = 0, extras = [(''value'', PyNone)]\<rparr> \<and>
   score_loop (filter (\<lambda>(n, w). n \<noteq> ''rsi_signal'') weights) missing_rsi_signals (0, 0)
     = (5/2, 18) \<and>
   generate_technical_signals missing_rsi_frame = Inr (TechResult missing_rsi_result) \<and>
   last missing_rsi_frame ''stoch_k'' = None \<and>
   last missing_rsi_frame ''rsi'' = Some NaN \<and>
   snd (score_loop weights (tsignals missing_rsi_result) (0, 0)) = 22 \<and>
   tscore missing_rsi_result = round2 (((5/2 + 22) / (2 * 22)) * 100) \<and>
   tscore missing_rsi_result =
     calculate_technical_score
       (filter (\<lambda>(n, s). n \<noteq> ''stoch_signal'') (tsignals missing_rsi_result))"
proof -
  have w1: "(''stoch_signal'', 1) \<in> set weights" and w2: "(''rsi_signal'', 2) \<in> set weights"
    by (simp_all add: weights_def)
  have s: "signals_get missing_rsi_signals ''stoch_signal'' = None"
    by (simp add: signals_get_def missing_rsi_signals_def)
  have r: "signals_get missing_rsi_signals ''rsi_signal''
     = Some \<lparr>signal = ''neutral'', strength = 0, extras = [(''value'', PyNone)]\<rparr>"
    by (simp add: signals_get_def missing_rsi_signals_def)
  have k: "last missing_rsi_frame ''stoch_k'' = None"
    by (simp add: missing_rsi_frame_def missing_rsi_row_def)
  have n: "last missing_rsi_frame ''rsi'' = Some NaN"
    by (simp add: missing_rsi_frame_def missing_rsi_row_def)
  have t: "tsignals missing_rsi_result = missing_rsi_signals"
    by (simp add: missing_rsi_result_def)
  show ?thesis
    using absent_signal_excluded [of "''stoch_signal''" 1 missing_rsi_signals
        "''rsi_signal''" 2 missing_rsi_signals
        "\<lparr>signal = ''neutral'', strength = 0, extras = [(''value'', PyNone)]\<rparr>"
        missing_rsi_frame missing_rsi_result]
      missing_rsi_frame_result w1 w2 s r k n t missing_rsi_loop missing_rsi_loop_without_stoch
      missing_rsi_loop_without_rsi
    by simp
qed

text \<open>
  On a frame whose RSI is missing the score is 55.68, while the remaining sub-signals
  alone score 56.94: the missing RSI lowers the score.
\<close>

theorem absent_signal_excluded_counterexample:
  "generate_technical_signals missing_rsi_frame = Inr (TechResult missing_rsi_result) \<and>
   last missing_rsi_frame ''rsi'' = Some NaN \<and>
   tscore missing_rsi_result = 5568/100 \<and>
   calculate_technical_score
     (filter (\<lambda>(n, s). n \<noteq> ''rsi_signal'') (tsignals missing_rsi_result)) = 5694/100"
proof -
  have r: "last missing_rsi_frame ''rsi'' = Some NaN"
    by (simp add: missing_rsi_frame_def missing_rsi_row_def)
  have c: "calculate_technical_score
     (filter (\<lambda>(n, s). n \<noteq> ''rsi_signal'') (tsignals missing_rsi_result)) = 5694/100"
    by (simp add: calculate_technical_score_def missing_rsi_result_def missing_rsi_signals_def
        weights_def signals_get_def round2_def round_half_even_def Let_def)
  show ?thesis using r c missing_rsi_frame_result by (simp add: missing_rsi_result_def)
qed

section \<open>The MACD classifier\<close>

text \<open>
  C6. When the MACD and signal values of the latest and of the previous row are all
  present, the classifier gives strength 2 with a bullish crossover exactly when the
  previous MACD is at most the previous signal and the latest MACD is above the latest
  signal, strength -2 with a bearish crossover exactly under the mirrored condition,
  strength 1 exactly when the latest MACD is above the signal without a crossover, and
  strength -1 exactly in every other case.
\<close>

theorem macd_classifier:
  assumes "latest ''macd'' = Some (Num m)" and "latest ''macd_signal'' = Some (Num sg)"
    and "previous ''macd'' = Some (Num pm)" and "previous ''macd_signal'' = Some (Num ps)"
  shows "(strength (analyze_macd latest previous) = 2 \<longleftrightarrow> pm \<le> ps \<and> m > sg) \<and>
         (sig_get (analyze_macd latest previous) ''crossover'' = PyStr ''bullish''
            \<longleftrightarrow> pm \<le> ps \<and> m > sg) \<and>
         (pm \<le> ps \<and> m > sg \<longrightarrow> signal (analyze_macd latest previous) = ''bullish'') \<and>
         (strength (analyze_macd latest previous) = -2 \<longleftrightarrow> pm \<ge> ps \<and> m < sg) \<and>
         (sig_get (analyze_macd latest previous) ''crossover'' = PyStr ''bearish''
            \<longleftrightarrow> pm \<ge> ps \<and> m < sg) \<and>
         (pm \<ge> ps \<and> m < sg \<longrightarrow> signal (analyze_macd latest previous) = ''bearish'') \<and>
         (strength (analyze_macd latest previous) = 1 \<longleftrightarrow> m > sg \<and> \<not> pm \<le> ps) \<and>
         (strength (analyze_macd latest previous) = -1 \<longleftrightarrow>
            \<not> (pm \<le> ps \<and> m > sg) \<and> \<not> (pm \<ge> ps \<and> m < sg) \<and> \<not> m > sg)"
  using assms
  by (simp add: analyze_macd_def Let_def cell_gt_def cell_ge_def sig_get_def)

text \<open>
  The example of the specification: previous (macd -0.5, signal -0.3), latest
  (macd 0.2, signal 0.1) is a bullish crossover of strength 2.
\<close>

theorem macd_classifier_witness:
  "strength (analyze_macd macd_example_latest macd_example_previous) = 2 \<and>
   signal (analyze_macd macd_example_latest macd_example_previous) = ''bullish'' \<and>
   sig_get (analyze_macd macd_example_latest macd_example_previous) ''crossover''
     = PyStr ''bullish''"
  using macd_classifier [of macd_example_latest "2/10" "1/10" macd_example_previous
      "-(1/2)" "-(3/10)"]
  by (simp add: macd_example_latest_def macd_example_previous_def)

section \<open>Batch scoring\<close>

text \<open>
  C7. Batch scoring always returns a list with exactly one result per symbol: the
  results are those of the symbols, each scored on its own, in descending order of
  overall score. A symbol whose scoring raises is given the error result of that
  symbol, with recommendation HOLD, overall score 50 and the text of the error; a
  symbol whose scoring returns is given that result.
\<close>

theorem batch_scoring:
  "length (score_portfolio e symbols) = length symbols \<and>
   mset (score_portfolio e symbols) = image_mset (try_score e) (mset symbols) \<and>
   sorted_wrt (\<lambda>a b. overall_score a \<ge> overall_score b) (score_portfolio e symbols) \<and>
   (score_stock e s None None = Inl ex \<longrightarrow>
      try_score e s = create_error_result e s (str_exn ex) \<and>
      symbol (try_score e s) = s \<and>
      recommendation (try_score e s) = ''HOLD'' \<and>
      overall_score (try_score e s) = 50 \<and>
      error (try_score e s) = Some (str_exn ex)) \<and>
   (score_stock e s' None None = Inr r \<longrightarrow> try_score e s' = r)"
proof -
  have l: "length (score_portfolio e symbols) = length symbols"
    by (simp add: score_portfolio_def sort_descending_def portfolio_loop_map)
  have m: "mset (score_portfolio e symbols) = image_mset (try_score e) (mset symbols)"
    by (simp add: score_portfolio_def sort_descending_def portfolio_loop_map)
  have s: "sorted_wrt (\<lambda>a b. overall_score a \<ge> overall_score b) (score_portfolio e symbols)"
    unfolding score_portfolio_def by (rule sort_descending_sorted)
  have p: "score_stock e s None None = Inl ex \<longrightarrow>
      try_score e s = create_error_result e s (str_exn ex) \<and>
      symbol (try_score e s) = s \<and>
      recommendation (try_score e s) = ''HOLD'' \<and>
      overall_score (try_score e s) = 50 \<and>
      error (try_score e s) = Some (str_exn ex)"
    by (simp add: try_score_def create_error_result_def)
  have q: "score_stock e s' None None = Inr r \<longrightarrow> try_score e s' = r"
    by (simp add: try_score_def)
  show ?thesis using l m s p q by blast
qed

text \<open>
  Three symbols of which the first raises: the batch has three results, ranked, and
  the failing symbol comes last with its error result.
\<close>

theorem batch_scoring_witness:
  "score_stock stub_env ''BAD'' None None = Inl (KeyError ''rsi'') \<and>
   score_stock stub_env ''AAA'' None None = Inr aaa_result \<and>
   score_portfolio stub_env [''BAD'', ''BBB'', ''AAA''] = [aaa_result, bbb_result, bad_result] \<and>
   length (score_portfolio stub_env [''BAD'', ''BBB'', ''AAA'']) = 3 \<and>
   try_score stub_env ''BAD'' = bad_result \<and>
   recommendation bad_result = ''HOLD'' \<and> overall_score bad_result = 50 \<and>
   error bad_result = Some (str_exn (KeyError ''rsi'')) \<and>
   try_score stub_env ''AAA'' = aaa_result \<and>
   map overall_score [aaa_result, bbb_result, bad_result] = [7545/100, 5545/100, 50]"
proof -
  have o: "map overall_score [aaa_result, bbb_result, bad_result] = [7545/100, 5545/100, 50]"
    by (simp add: aaa_result_def bbb_result_def bad_result_def)
  show ?thesis
    using batch_scoring [of stub_env "[''BAD'', ''BBB'', ''AAA'']" "''BAD''" "KeyError ''rsi''"
        "''AAA''" aaa_result]
      score_stock_BAD score_stock_AAA stub_portfolio try_score_BAD o
    by simp
qed

section \<open>Failures in the indicator pipeline\<close>

text \<open>
  C8, as amended. The indicators are computed one after another inside one error
  handler. An exception raised while deriving an indicator, whichever it is, is not
  passed on to the caller but ends the pipeline: the series is returned exactly as it
  stood when the exception was raised, so the indicators assigned before it stay
  populated and no indicator after it is computed; and every returned series is either
  the one after all ten indicators or the one at the first exception. When RSI, the
  first, fails the input series is returned with no indicator; when RSI succeeds and
  MACD fails only RSI is populated. An indicator that assigns a single column, and the
  Bollinger Bands, assign nothing when they raise. A missing column name of the
  Bollinger Bands is handled locally: it raises nothing, and the later indicators are
  still computed. None and an empty input series are returned unchanged.
\<close>

theorem indicator_failure_keeps_earlier_columns:
  "calculate_all_indicators ta None = None \<and>
   calculate_all_indicators ta (Some []) = Some [] \<and>
   (d \<noteq> [] \<and> i < length (indicator_steps ta) \<and>
    run_steps (take i (indicator_steps ta)) d = (Inr (), di) \<and>
    (indicator_steps ta ! i) di = (Inl ex, di') \<longrightarrow>
      calculate_all_indicators ta (Some d) = Some di') \<and>
   (d0 \<noteq> [] \<and> run_steps (indicator_steps ta0) d0 = (Inr (), d0') \<longrightarrow>
      calculate_all_indicators ta0 (Some d0) = Some d0') \<and>
   (d1 \<noteq> [] \<and> calculate_all_indicators ta1 (Some d1) = Some d1' \<longrightarrow>
      run_steps (indicator_steps ta1) d1 = (Inr (), d1') \<or>
      (\<exists>j dj e. j < length (indicator_steps ta1) \<and>
         run_steps (take j (indicator_steps ta1)) d1 = (Inr (), dj) \<and>
         (indicator_steps ta1 ! j) dj = (Inl e, d1'))) \<and>
   (d2 \<noteq> [] \<and> thenE (getcol d2 ''Close'') (\<lambda>c. ta_rsi ta2 c RSI_PERIOD) = Inl ex2 \<longrightarrow>
      calculate_all_indicators ta2 (Some d2) = Some d2) \<and>
   (d3 \<noteq> [] \<and> thenE (getcol d3 ''Close'') (\<lambda>c. ta_rsi ta3 c RSI_PERIOD) = Inr rsi \<and>
    thenE (getcol (set_column ''rsi'' rsi d3) ''Close'') (ta_macd ta3) = Inl ex3 \<longrightarrow>
      calculate_all_indicators ta3 (Some d3) = Some (set_column ''rsi'' rsi d3)) \<and>
   fst (bb_block b s) = Inr () \<and>
   (step_bb ta4 s4 = (Inl ex4, s4') \<longrightarrow> s4' = s4) \<and>
   (step_column name compute s5 = (Inl ex5, s5') \<longrightarrow> s5' = s5) \<and>
   length (indicator_steps ta) = 10"
proof -
  have a: "calculate_all_indicators ta None = None \<and>
      calculate_all_indicators ta (Some []) = Some []"
    by (simp add: calculate_all_indicators_def)
  have b: "calculate_all_indicators ta (Some d) = Some di'"
    if "d \<noteq> []" and "i < length (indicator_steps ta)"
      and "run_steps (take i (indicator_steps ta)) d = (Inr (), di)"
      and "(indicator_steps ta ! i) di = (Inl ex, di')"
    using run_steps_raise_at [OF that(2) that(3) that(4)] that(1)
    by (simp add: calculate_all_indicators_steps)
  have c: "calculate_all_indicators ta0 (Some d0) = Some d0'"
    if "d0 \<noteq> []" and "run_steps (indicator_steps ta0) d0 = (Inr (), d0')"
    using that by (simp add: calculate_all_indicators_steps)
  have e: "run_steps (indicator_steps ta1) d1 = (Inr (), d1') \<or>
      (\<exists>j dj e. j < length (indicator_steps ta1) \<and>
         run_steps (take j (indicator_steps ta1)) d1 = (Inr (), dj) \<and>
         (indicator_steps ta1 ! j) dj = (Inl e, d1'))"
    if ne: "d1 \<noteq> []" and r: "calculate_all_indicators ta1 (Some d1) = Some d1'"
  proof -
    obtain res where run: "run_steps (indicator_steps ta1) d1 = (res, d1')"
      using r ne by (cases "run_steps (indicator_steps ta1) d1")
        (simp add: calculate_all_indicators_steps)
    show ?thesis
    proof (cases res)
      case (Inl x)
      then show ?thesis using run_steps_raised [of "indicator_steps ta1" d1 x d1'] run by blast
    next
      case (Inr u)
      then show ?thesis using run by simp
    qed
  qed
  have f: "calculate_all_indicators ta2 (Some d2) = Some d2"
    if "d2 \<noteq> []" and "thenE (getcol d2 ''Close'') (\<lambda>c. ta_rsi ta2 c RSI_PERIOD) = Inl ex2"
    using that try_block_rsi_raises [of d2 ta2 ex2] by (simp add: calculate_all_indicators_def)
  have g: "calculate_all_indicators ta3 (Some d3) = Some (set_column ''rsi'' rsi d3)"
    if "d3 \<noteq> []" and "thenE (getcol d3 ''Close'') (\<lambda>c. ta_rsi ta3 c RSI_PERIOD) = Inr rsi"
      and "thenE (getcol (set_column ''rsi'' rsi d3) ''Close'') (ta_macd ta3) = Inl ex3"
    using that try_block_macd_raises [of d3 ta3 rsi ex3]
    by (simp add: calculate_all_indicators_def)
  have h: "fst (bb_block b s) = Inr ()" by (rule bb_block_never_raises)
  have k: "step_bb ta4 s4 = (Inl ex4, s4') \<longrightarrow> s4' = s4"
    using step_bb_raises by blast
  have l: "step_column name compute s5 = (Inl ex5, s5') \<longrightarrow> s5' = s5"
    using step_column_raises by blast
  have m: "length (indicator_steps ta) = 10" by (simp add: indicator_steps_def)
  show ?thesis using a b c e f g h k l m by blast
qed

text \<open>
  With a library whose Bollinger Bands raise, the series has RSI and the three moving
  averages and nothing after them; with Bollinger Bands under other column names no
  band is assigned and the volume average, ATR and OBV are still computed.
\<close>

theorem indicator_failure_keeps_earlier_columns_witness:
  "zero_close_frame \<noteq> [] \<and> ohlcv_frame \<noteq> [] \<and>
   (indicator_steps stub_ta ! 0) zero_close_frame
     = (Inl (Exception ''rsi failed''), zero_close_frame) \<and>
   calculate_all_indicators stub_ta (Some zero_close_frame) = Some zero_close_frame \<and>
   run_steps (take 5 (indicator_steps bb_failing_ta)) ohlcv_frame = (Inr (), [before_bb_row]) \<and>
   (indicator_steps bb_failing_ta ! 5) [before_bb_row]
     = (Inl (Exception ''bbands failed''), [before_bb_row]) \<and>
   calculate_all_indicators bb_failing_ta (Some ohlcv_frame) = Some [before_bb_row] \<and>
   before_bb_row ''sma_200'' = Some (Num 100) \<and> before_bb_row ''volume_sma_20'' = None \<and>
   run_steps (indicator_steps misnamed_bb_ta) ohlcv_frame = (Inr (), [enriched_row]) \<and>
   calculate_all_indicators misnamed_bb_ta (Some ohlcv_frame) = Some [enriched_row] \<and>
   enriched_row ''bb_upper'' = None \<and> enriched_row ''volume_sma_20'' = Some (Num 1000) \<and>
   thenE (getcol ohlcv_frame ''Close'') (\<lambda>c. ta_rsi macd_failing_ta c RSI_PERIOD)
     = Inr (Some [Num 25]) \<and>
   calculate_all_indicators macd_failing_ta (Some ohlcv_frame)
     = Some [ohlcv_row(''rsi'' \<mapsto> Num 25)]"
proof -
  have n: "zero_close_frame \<noteq> []" "ohlcv_frame \<noteq> []"
    by (simp_all add: zero_close_frame_def ohlcv_frame_def)
  have s: "set_column ''rsi'' (Some [Num 25]) ohlcv_frame = [ohlcv_row(''rsi'' \<mapsto> Num 25)]"
    by (simp add: ohlcv_frame_def enumerate_eq_zip)
  have r: "before_bb_row ''sma_200'' = Some (Num 100)" "before_bb_row ''volume_sma_20'' = None"
    "enriched_row ''bb_upper'' = None" "enriched_row ''volume_sma_20'' = Some (Num 1000)"
    by (simp_all add: before_bb_row_def enriched_row_def ohlcv_row_def)
  have l: "(5::nat) < length (indicator_steps bb_failing_ta)"
    by (simp add: indicator_steps_def)
  show ?thesis
    using indicator_failure_keeps_earlier_columns
        [where ta = bb_failing_ta and d = ohlcv_frame and i = 5 and di = "[before_bb_row]"
           and ex = "Exception ''bbands failed''" and di' = "[before_bb_row]"
           and ?ta0.0 = misnamed_bb_ta and ?d0.0 = ohlcv_frame and d0' = "[enriched_row]"
           and ?ta2.0 = stub_ta and ?d2.0 = zero_close_frame and ?ex2.0 = "Exception ''rsi failed''"
           and ?ta3.0 = macd_failing_ta and ?d3.0 = ohlcv_frame and rsi = "Some [Num 25]"
           and ?ex3.0 = "Exception ''macd failed''"]
      n l zero_close_first_step bb_failing_prefix bb_failing_step misnamed_bb_run
      zero_close_rsi ohlcv_rsi ohlcv_macd s r
    by simp
qed

text \<open>
  With a library whose RSI fails on the close series while its moving average would
  return a column for the same series and for the volumes, the returned series has no
  moving-average column: the failure of RSI has stopped the other indicators.
\<close>

theorem indicator_failure_counterexample:
  "ta_rsi stub_ta [Num 0] RSI_PERIOD = Inl (Exception ''rsi failed'') \<and>
   ta_sma stub_ta [Num 0] SMA_SHORT = Inr (Some [Num 0]) \<and>
   ta_sma stub_ta [Num 1000] 20 = Inr (Some [Num 1000]) \<and>
   getcol zero_close_frame ''Close'' = Inr [Num 0] \<and>
   getcol zero_close_frame ''Volume'' = Inr [Num 1000] \<and>
   calculate_all_indicators stub_ta (Some zero_close_frame) = Some zero_close_frame \<and>
   last zero_close_frame ''sma_20'' = None \<and>
   last zero_close_frame ''volume_sma_20'' = None"
  using zero_close_indicators
  by (simp add: stub_ta_def getcol_def zero_close_frame_def ohlcv_row_def)

section \<open>Frames without indicator columns\<close>

text \<open>
  C9. The fundamental classifier returns score 50 with no signals on an empty metrics
  dictionary. The technical classifier, on a frame that has only the price columns,
  raises: \<^verbatim>\<open>latest['rsi']\<close> is a KeyError.
\<close>

theorem stripped_frame_raises:
  "generate_technical_signals ohlcv_frame = Inl (KeyError ''rsi'') \<and>
   analyze_fundamentals [] = \<lparr>fscore = 50, fsignals = [], fmetrics = []\<rparr>"
  using ohlcv_frame_raises by (simp add: analyze_fundamentals_def)

section \<open>A frame of one row\<close>

text \<open>
  C10. On a frame of one row the previous row is the latest row, and the MACD
  classifier reports no crossover: its strength is -1, 0 or 1 and its crossover field is
  neither bullish nor bearish.
\<close>

theorem single_row_no_crossover:
  "strength (analyze_macd r r) \<in> {-1, 0, 1} \<and>
   sig_get (analyze_macd r r) ''crossover'' \<noteq> PyStr ''bullish'' \<and>
   sig_get (analyze_macd r r) ''crossover'' \<noteq> PyStr ''bearish'' \<and>
   (generate_technical_signals [r] = Inr (TechResult tr) \<longrightarrow>
      signals_get (tsignals tr) ''macd_signal'' = Some (analyze_macd r r))"
proof -
  have a: "strength (analyze_macd r r) \<in> {-1, 0, 1} \<and>
      sig_get (analyze_macd r r) ''crossover'' \<noteq> PyStr ''bullish'' \<and>
      sig_get (analyze_macd r r) ''crossover'' \<noteq> PyStr ''bearish''"
  proof (cases "isna (r ''macd'') \<or> isna (r ''macd_signal'')")
    case True
    then show ?thesis by (auto simp: analyze_macd_def sig_get_def)
  next
    case False
    then obtain m sg where m: "r ''macd'' = Some (Num m)" and sg: "r ''macd_signal'' = Some (Num sg)"
      by (metis isna.elims(3))
    show ?thesis
      by (simp add: analyze_macd_def Let_def m sg cell_gt_def cell_ge_def sig_get_def)
  qed
  have b: "signals_get (tsignals tr) ''macd_signal'' = Some (analyze_macd r r)"
    if g: "generate_technical_signals [r] = Inr (TechResult tr)"
    using generate_technical_signals_result [OF g] by (auto simp: signals_get_def)
  show ?thesis using a b by blast
qed

theorem single_row_no_crossover_witness:
  "generate_technical_signals [missing_rsi_row] = Inr (TechResult missing_rsi_result) \<and>
   signals_get (tsignals missing_rsi_result) ''macd_signal''
     = Some (analyze_macd missing_rsi_row missing_rsi_row) \<and>
   strength (analyze_macd missing_rsi_row missing_rsi_row) = 1 \<and>
   sig_get (analyze_macd missing_rsi_row missing_rsi_row) ''crossover'' = PyNone"
proof -
  have e: "analyze_macd missing_rsi_row missing_rsi_row
      = \<lparr>signal = ''bullish'', strength = 1, extras = [(''crossover'', PyNone)]\<rparr>"
    by (simp add: analyze_macd_def missing_rsi_row_def Let_def cell_gt_def cell_ge_def)
  show ?thesis
    using single_row_no_crossover [of missing_rsi_row missing_rsi_result]
      missing_rsi_frame_result [unfolded missing_rsi_frame_def] e
    by (simp add: sig_get_def)
qed

end
